theory Spec2Isabelle
  imports Complex_Main
begin

section \<open>JavaScript values that flow through the server\<close>

text \<open>
  Values produced by \<^verbatim>\<open>JSON.parse\<close>. A number is a rational (every finite double is one);
  an object is its list of own properties, read with \<open>map_of\<close>. A value that may be
  \<^verbatim>\<open>undefined\<close> has type \<open>json option\<close>, with \<open>None\<close> for \<^verbatim>\<open>undefined\<close>.
\<close>

datatype json =
    JNull
  | JBool bool
  | JNum rat
  | JStr string
  | JArr "json list"
  | JObj "(string \<times> json) list"

datatype path_elem = Key string | Index nat

text \<open>One field-level diagnostic of a failed schema parse: where, and which check failed.\<close>

datatype issue = Issue "path_elem list" string

text \<open>
  Strings the server builds are kept symbolic: a template literal is the list of its parts.
  \<open>ToStr v\<close> is the string conversion of \<open>v\<close> inside a template literal,
  \<open>Stringify v\<close> is \<^verbatim>\<open>JSON.stringify(v, null, 2)\<close>, \<open>IssuesJson\<close> is the message of
  a schema error, \<open>EngineText\<close> a message worded by the JavaScript engine.
\<close>

datatype text_part =
    Lit string
  | ToStr "json option"
  | Stringify json
  | IssuesJson "issue list"
  | EngineText string

type_synonym template = "text_part list"

text \<open>Everything the code can throw.\<close>

datatype js_error =
    Error template
  | TypeError string
  | SyntaxError
  | ZodError "issue list"
  | PetfinderAPIError int string json template

text \<open>The outcome of awaiting a promise of the platform.\<close>

datatype 'a promise = Rejected | Resolved 'a

record response =
  status :: int
  statusText :: string
  body_text :: string
  json_result :: "json option"

text \<open>
  \<open>body_text\<close> is what \<^verbatim>\<open>response.text()\<close> resolves to and \<open>json_result\<close> what
  \<^verbatim>\<open>response.json()\<close> resolves to (\<open>None\<close> when it rejects).
\<close>

definition ok :: "response \<Rightarrow> bool" where
  "ok r = (200 \<le> status r \<and> status r \<le> 299)"

text \<open>
  A JavaScript number, and the value of the cache field \<^verbatim>\<open>expires_at\<close>: the source
  computes it as \<^verbatim>\<open>now + tokenData.expires_in\<close> from an unchecked reply, so it is a
  number, possibly \<^verbatim>\<open>NaN\<close>, or the string of a concatenation.
\<close>

datatype js_number = NaN | NegInfinity | Num rat | PosInfinity

datatype number_or_string = NumberValue js_number | StringValue template

text \<open>The comparisons \<^verbatim>\<open>x <= n\<close> and \<^verbatim>\<open>x > n\<close> of a number with an integer.\<close>

fun js_le :: "js_number \<Rightarrow> int \<Rightarrow> bool" where
  "js_le NaN n = False"
| "js_le NegInfinity n = True"
| "js_le (Num q) n = (q \<le> of_int n)"
| "js_le PosInfinity n = False"

fun js_gt :: "js_number \<Rightarrow> int \<Rightarrow> bool" where
  "js_gt NaN n = False"
| "js_gt NegInfinity n = False"
| "js_gt (Num q) n = (q > of_int n)"
| "js_gt PosInfinity n = True"

text \<open>
  The symbolic URL of an API call: the endpoint and the appended query pairs. A network
  call is the token exchange for a client id and secret, or an API request for a URL with
  the token it sends as bearer.
\<close>

datatype url = Url template "(string \<times> text_part) list"

datatype fetch_call = TokenFetch string string | ApiFetch url "json option"

section \<open>JavaScript conversions used by the code\<close>

text \<open>
  Converting a parsed JSON value to a string throws a \<^verbatim>\<open>TypeError\<close> exactly when an
  object with an own property \<^verbatim>\<open>toString\<close> is reached: that property is not callable,
  and the inherited \<^verbatim>\<open>valueOf\<close> returns the object. An array converts by joining the
  conversions of its elements.
\<close>

fun toString_throws :: "json \<Rightarrow> bool" where
  "toString_throws (JObj kvs) = (map_of kvs ''toString'' \<noteq> None)"
| "toString_throws (JArr xs) = list_ex toString_throws xs"
| "toString_throws _ = False"

definition cannot_convert :: js_error where
  "cannot_convert = TypeError ''Cannot convert object to primitive value''"

text \<open>A value interpolated in a template literal.\<close>

definition interpolate :: "json option \<Rightarrow> js_error + text_part" where
  "interpolate v =
     (case v of
        None \<Rightarrow> Inr (ToStr None)
      | Some j \<Rightarrow> if toString_throws j then Inl cannot_convert else Inr (ToStr v))"

text \<open>The method call \<^verbatim>\<open>v.toString()\<close>.\<close>

definition call_toString :: "json \<Rightarrow> js_error + text_part" where
  "call_toString v =
     (if v = JNull then Inl (TypeError ''null is not an object'')
      else if toString_throws v then Inl cannot_convert
      else Inr (ToStr (Some v)))"

text \<open>
  Reading a property named \<open>k\<close> that no prototype defines (\<^verbatim>\<open>method\<close>, \<^verbatim>\<open>id\<close>,
  \<^verbatim>\<open>params\<close>, \<^verbatim>\<open>name\<close>, \<^verbatim>\<open>arguments\<close>, \<^verbatim>\<open>type\<close>, \<^verbatim>\<open>animals\<close>,
  \<^verbatim>\<open>organizations\<close>, \<^verbatim>\<open>content\<close>, \<^verbatim>\<open>access_token\<close>, \<^verbatim>\<open>expires_in\<close>): an
  object yields its own property, any other non-null value yields \<^verbatim>\<open>undefined\<close>.
\<close>

fun own_prop :: "json \<Rightarrow> string \<Rightarrow> json option" where
  "own_prop (JObj kvs) k = map_of kvs k"
| "own_prop _ k = None"

definition get_prop :: "json option \<Rightarrow> string \<Rightarrow> js_error + json option" where
  "get_prop v k =
     (case v of
        None \<Rightarrow> Inl (TypeError ''undefined is not an object'')
      | Some JNull \<Rightarrow> Inl (TypeError ''null is not an object'')
      | Some j \<Rightarrow> Inr (own_prop j k))"

fun truthy :: "json option \<Rightarrow> bool" where
  "truthy None = False"
| "truthy (Some JNull) = False"
| "truthy (Some (JBool b)) = b"
| "truthy (Some (JNum q)) = (q \<noteq> 0)"
| "truthy (Some (JStr s)) = (s \<noteq> [])"
| "truthy (Some (JArr xs)) = True"
| "truthy (Some (JObj kvs)) = True"

text \<open>\<^verbatim>\<open>!s\<close> for a string that may be \<^verbatim>\<open>null\<close> or \<^verbatim>\<open>undefined\<close>.\<close>

fun no_string :: "string option \<Rightarrow> bool" where
  "no_string None = True"
| "no_string (Some s) = (s = [])"

function string_of_nat :: "nat \<Rightarrow> string" where
  "string_of_nat n =
     (if n < 10 then [''0123456789'' ! n]
      else string_of_nat (n div 10) @ [''0123456789'' ! (n mod 10)])"
  by pat_completeness auto
termination
  by (relation "measure id") auto

fun index_entries :: "nat \<Rightarrow> json list \<Rightarrow> (string \<times> json) list" where
  "index_entries i [] = []"
| "index_entries i (x # xs) = (string_of_nat i, x) # index_entries (Suc i) xs"

text \<open>
  The own enumerable properties that \<^verbatim>\<open>{...v}\<close> copies: those of an object, the indexed
  elements of an array, the indexed characters of a string, none otherwise.
\<close>

fun own_entries :: "json option \<Rightarrow> (string \<times> json) list" where
  "own_entries (Some (JObj kvs)) = kvs"
| "own_entries (Some (JArr xs)) = index_entries 0 xs"
| "own_entries (Some (JStr s)) = index_entries 0 (map (\<lambda>c. JStr [c]) s)"
| "own_entries _ = []"

text \<open>
  \<^verbatim>\<open>{...base, ...v}\<close>: a property of \<open>v\<close> overrides the one of \<open>base\<close>. Property lists
  are read with \<open>map_of\<close>, which takes the first binding of a key.
\<close>

definition spread :: "(string \<times> json) list \<Rightarrow> json option \<Rightarrow> (string \<times> json) list" where
  "spread base v = own_entries v @ base"

text \<open>
  The sum \<^verbatim>\<open>now + v\<close> of an integer and a parsed value. \<^verbatim>\<open>undefined\<close> gives
  \<^verbatim>\<open>NaN\<close>; \<^verbatim>\<open>null\<close> and booleans count as 0 and 1; a string is appended to the
  digits of \<open>now\<close>; an array or object is converted to a string first, which throws
  where that conversion throws, and is appended likewise.
\<close>

definition js_plus :: "int \<Rightarrow> json option \<Rightarrow> js_error + number_or_string" where
  "js_plus now v =
     (case v of
        None \<Rightarrow> Inr (NumberValue NaN)
      | Some JNull \<Rightarrow> Inr (NumberValue (Num (of_int now)))
      | Some (JBool b) \<Rightarrow> Inr (NumberValue (Num (of_int now + (if b then 1 else 0))))
      | Some (JNum q) \<Rightarrow> Inr (NumberValue (Num (of_int now + q)))
      | Some (JStr s) \<Rightarrow> Inr (StringValue [ToStr (Some (JNum (of_int now))), Lit s])
      | Some j \<Rightarrow>
          if toString_throws j then Inl cannot_convert
          else Inr (StringValue [ToStr (Some (JNum (of_int now))), ToStr (Some j)]))"

section \<open>The world outside the process\<close>

text \<open>
  \<open>now_getAccessToken\<close> and \<open>now_cleanup\<close> are the two clock readings
  \<^verbatim>\<open>Math.floor(Date.now() / 1000)\<close> of one token acquisition, \<open>oauth\<close> answers the POST
  to the token endpoint, \<open>api\<close> answers an authenticated GET, \<open>json_parse\<close> is
  \<^verbatim>\<open>JSON.parse\<close> (\<open>None\<close> when it throws), and \<open>string_to_number\<close> is the number
  that a string reads as when it is compared with a number.
\<close>

record world =
  now_getAccessToken :: int
  now_cleanup :: int
  oauth :: "string \<Rightarrow> string \<Rightarrow> response promise"
  api :: "url \<Rightarrow> json option \<Rightarrow> response promise"
  json_parse :: "string \<Rightarrow> json option"
  string_to_number :: "template \<Rightarrow> js_number"

text \<open>The operand of a comparison with a number.\<close>

definition to_number :: "world \<Rightarrow> number_or_string \<Rightarrow> js_number" where
  "to_number w v = (case v of NumberValue n \<Rightarrow> n | StringValue t \<Rightarrow> string_to_number w t)"

section \<open>Process state\<close>

text \<open>
  A cache entry. The interface declares a string and a number; the values stored are
  whatever the token reply held, so \<open>access_token\<close> is any value or \<^verbatim>\<open>undefined\<close>.
\<close>

record TokenCache =
  access_token :: "json option"
  expires_at :: number_or_string

record RequestContext =
  ctx_clientId :: "string option"
  ctx_clientSecret :: "string option"

text \<open>
  \<open>tokenCache\<close> and \<open>requestContext\<close> are the two module-level variables; \<open>fetches\<close>
  records every network call made so far, in order.
\<close>

record state =
  tokenCache :: "string \<rightharpoonup> TokenCache"
  requestContext :: RequestContext
  fetches :: "fetch_call list"

definition empty_context :: RequestContext where
  "empty_context = \<lparr>ctx_clientId = None, ctx_clientSecret = None\<rparr>"

section \<open>OAuth token management\<close>

text \<open>
  \<^verbatim>\<open>tokenCache\<close> is a \<^verbatim>\<open>Map\<close> from client id to token, read and written by key only, so
  it is a partial function. The loop of \<^verbatim>\<open>cleanupExpiredTokens\<close> visits every entry once
  and deletes those for which \<^verbatim>\<open>token.expires_at <= now\<close> holds, with the clock reading
  the function takes itself.
\<close>

definition cleanupExpiredTokens :: "world \<Rightarrow> (string \<rightharpoonup> TokenCache) \<Rightarrow> (string \<rightharpoonup> TokenCache)" where
  "cleanupExpiredTokens w cache =
     (let now = now_cleanup w in
      (\<lambda>clientId. case cache clientId of
         None \<Rightarrow> None
       | Some token \<Rightarrow>
           if js_le (to_number w (expires_at token)) now then None else Some token))"

definition missing_credentials :: js_error where
  "missing_credentials =
     Error [Lit ''Missing Petfinder credentials. Provide x-petfinder-client-id and x-petfinder-client-secret headers.'']"

text \<open>
  Lines 99 to 116: the reply is used as it was parsed. Reading a property of \<^verbatim>\<open>null\<close>
  throws; the entry is built from the two properties, stored, and the log line
  interpolates \<^verbatim>\<open>tokenData.expires_in\<close> before the token is returned.
\<close>

definition cache_new_token ::
  "state \<Rightarrow> int \<Rightarrow> string \<Rightarrow> json \<Rightarrow> (js_error + json option) \<times> state" where
  "cache_new_token s now clientId tokenData =
     (case get_prop (Some tokenData) ''access_token'' of
        Inl e \<Rightarrow> (Inl e, s)
      | Inr token \<Rightarrow>
          (case js_plus now (own_prop tokenData ''expires_in'') of
             Inl e \<Rightarrow> (Inl e, s)
           | Inr expiry \<Rightarrow>
               let newToken = \<lparr>access_token = token, expires_at = expiry\<rparr>;
                   s1 = s\<lparr>tokenCache := (tokenCache s)(clientId \<mapsto> newToken)\<rparr> in
               (case interpolate (own_prop tokenData ''expires_in'') of
                  Inl e \<Rightarrow> (Inl e, s1)
                | Inr t \<Rightarrow> (Inr (access_token newToken), s1))))"

text \<open>Lines 74 to 116: the client-credentials exchange and the cache write.\<close>

definition requestNewToken ::
  "world \<Rightarrow> state \<Rightarrow> int \<Rightarrow> string \<Rightarrow> string \<Rightarrow> (js_error + json option) \<times> state" where
  "requestNewToken w s now clientId clientSecret =
     (let s1 = s\<lparr>fetches := fetches s @ [TokenFetch clientId clientSecret]\<rparr> in
      case oauth w clientId clientSecret of
        Rejected \<Rightarrow> (Inl (TypeError ''fetch failed''), s1)
      | Resolved r \<Rightarrow>
          if \<not> ok r then
            (Inl (PetfinderAPIError (status r) (statusText r) (JStr (body_text r))
               [Lit ''OAuth token request failed ('', ToStr (Some (JNum (of_int (status r)))),
                Lit ''): '', Lit (body_text r)]), s1)
          else
            (case json_result r of
               None \<Rightarrow> (Inl SyntaxError, s1)
             | Some tokenData \<Rightarrow> cache_new_token s1 now clientId tokenData))"

text \<open>
  \<^verbatim>\<open>getAccessToken(clientId, clientSecret)\<close>. An argument is \<open>None\<close> when it is
  \<^verbatim>\<open>undefined\<close> or \<^verbatim>\<open>null\<close>; \<^verbatim>\<open>!clientId\<close> holds for those and for the empty string.
\<close>

definition getAccessToken ::
  "world \<Rightarrow> state \<Rightarrow> string option \<Rightarrow> string option \<Rightarrow> (js_error + json option) \<times> state" where
  "getAccessToken w s clientId clientSecret =
     (let now = now_getAccessToken w in
      case (clientId, clientSecret) of
        (Some cid, Some secret) \<Rightarrow>
          if cid = [] \<or> secret = [] then (Inl missing_credentials, s)
          else
            let s1 = s\<lparr>tokenCache := cleanupExpiredTokens w (tokenCache s)\<rparr> in
            (case tokenCache s1 cid of
               Some cachedToken \<Rightarrow>
                 if js_gt (to_number w (expires_at cachedToken)) (now + 60) then
                   (Inr (access_token cachedToken), s1)
                 else requestNewToken w s1 now cid secret
             | None \<Rightarrow> requestNewToken w s1 now cid secret)
      | _ \<Rightarrow> (Inl missing_credentials, s))"

section \<open>Input validation schemas\<close>

text \<open>
  The schema combinators of the validation library that the source uses, as a datatype, and
  their parse as an interpreter: \<^verbatim>\<open>z.string()\<close>, \<^verbatim>\<open>z.number()\<close> with its chained checks,
  \<^verbatim>\<open>z.enum([..])\<close>, \<^verbatim>\<open>z.array(s)\<close>, \<^verbatim>\<open>s.optional()\<close>, \<^verbatim>\<open>s.default(v)\<close>. An object
  schema is the list of its fields; parsing it reads the declared fields only and drops
  every other property.
\<close>

datatype zcheck = ZInt | ZPositive | ZMin int | ZMax int

datatype zod =
    ZString
  | ZNumber "zcheck list"
  | ZEnum "string list"
  | ZArray zod
  | ZOptional zod
  | ZDefault zod json

type_synonym shape = "(string \<times> zod) list"

fun check_issues :: "path_elem list \<Rightarrow> rat \<Rightarrow> zcheck \<Rightarrow> issue list" where
  "check_issues p q ZInt =
     (if of_int \<lfloor>q\<rfloor> \<noteq> q then [Issue p ''invalid_type'']
      else if q > 9007199254740991 then [Issue p ''too_big'']
      else if q < - 9007199254740991 then [Issue p ''too_small'']
      else [])"
| "check_issues p q ZPositive = (if q > 0 then [] else [Issue p ''too_small''])"
| "check_issues p q (ZMin m) = (if q \<ge> of_int m then [] else [Issue p ''too_small''])"
| "check_issues p q (ZMax m) = (if q \<le> of_int m then [] else [Issue p ''too_big''])"

text \<open>
  The checks of a number run in order and their issues accumulate, except that a value
  that is not an integer fails the integer check with one issue and ends the checking.
\<close>

fun run_checks :: "path_elem list \<Rightarrow> rat \<Rightarrow> zcheck list \<Rightarrow> issue list" where
  "run_checks p q [] = []"
| "run_checks p q (c # cs) =
     (if c = ZInt \<and> of_int \<lfloor>q\<rfloor> \<noteq> q then [Issue p ''invalid_type'']
      else check_issues p q c @ run_checks p q cs)"

fun issues_of :: "(issue list + 'a) \<Rightarrow> issue list" where
  "issues_of (Inl is) = is"
| "issues_of (Inr v) = []"

fun element_of :: "(issue list + json option) \<Rightarrow> json list" where
  "element_of (Inr (Some j)) = [j]"
| "element_of _ = []"

definition collect_elements :: "(issue list + json option) list \<Rightarrow> issue list + json option" where
  "collect_elements rs =
     (if list_ex isl rs then Inl (concat (map issues_of rs))
      else Inr (Some (JArr (concat (map element_of rs)))))"

fun zparse :: "zod \<Rightarrow> path_elem list \<Rightarrow> json option \<Rightarrow> issue list + json option" where
  "zparse ZString p v =
     (case v of Some (JStr s) \<Rightarrow> Inr v | _ \<Rightarrow> Inl [Issue p ''invalid_type''])"
| "zparse (ZNumber cs) p v =
     (case v of
        Some (JNum q) \<Rightarrow>
          (if run_checks p q cs = [] then Inr v else Inl (run_checks p q cs))
      | _ \<Rightarrow> Inl [Issue p ''invalid_type''])"
| "zparse (ZEnum vals) p v =
     (case v of
        Some (JStr s) \<Rightarrow> if List.member vals s then Inr v else Inl [Issue p ''invalid_value'']
      | _ \<Rightarrow> Inl [Issue p ''invalid_value''])"
| "zparse (ZArray z) p v =
     (case v of
        Some (JArr xs) \<Rightarrow>
          collect_elements (map (\<lambda>(i, x). zparse z (p @ [Index i]) (Some x)) (enumerate 0 xs))
      | _ \<Rightarrow> Inl [Issue p ''invalid_type''])"
| "zparse (ZOptional z) p v = (case v of None \<Rightarrow> Inr None | _ \<Rightarrow> zparse z p v)"
| "zparse (ZDefault z d) p v = (case v of None \<Rightarrow> Inr (Some d) | _ \<Rightarrow> zparse z p v)"

fun zparse_fields :: "shape \<Rightarrow> (string \<times> json) list \<Rightarrow> issue list \<times> (string \<times> json) list" where
  "zparse_fields [] input = ([], [])"
| "zparse_fields ((k, z) # fs) input =
     (let (is, out) = zparse_fields fs input in
      case zparse z [Key k] (map_of input k) of
        Inl e \<Rightarrow> (e @ is, out)
      | Inr None \<Rightarrow> (is, out)
      | Inr (Some v) \<Rightarrow> (is, (k, v) # out))"

text \<open>\<^verbatim>\<open>schema.parse(input)\<close> for an object schema and an object input.\<close>

definition zparse_object :: "shape \<Rightarrow> (string \<times> json) list \<Rightarrow> issue list + (string \<times> json) list" where
  "zparse_object sh input =
     (case zparse_fields sh input of
        ([], out) \<Rightarrow> Inr out
      | (i # is, out) \<Rightarrow> Inl (i # is))"

definition animalSearchSchema :: shape where
  "animalSearchSchema =
     [(''type'', ZOptional (ZEnum [''dog'', ''cat'', ''small-furry'', ''bird'',
                                    ''scales-fins-other'', ''barnyard'', ''rabbit'', ''horse''])),
      (''breed'', ZOptional (ZArray ZString)),
      (''size'', ZOptional (ZArray (ZEnum [''small'', ''medium'', ''large'', ''extra-large'']))),
      (''gender'', ZOptional (ZArray (ZEnum [''male'', ''female'', ''unknown'']))),
      (''age'', ZOptional (ZArray (ZEnum [''baby'', ''young'', ''adult'', ''senior'']))),
      (''color'', ZOptional (ZArray ZString)),
      (''coat'', ZOptional (ZArray (ZEnum [''short'', ''medium'', ''long'', ''wire'',
                                            ''hairless'', ''curly'']))),
      (''status'', ZDefault (ZOptional (ZEnum [''adoptable'', ''adopted'', ''found'']))
                     (JStr ''adoptable'')),
      (''name'', ZOptional ZString),
      (''organization'', ZOptional (ZArray ZString)),
      (''location'', ZOptional ZString),
      (''distance'', ZOptional (ZNumber [ZInt, ZPositive])),
      (''sort'', ZDefault (ZOptional (ZEnum [''recent'', ''-recent'', ''distance'',
                                              ''-distance'', ''random''])) (JStr ''recent'')),
      (''page'', ZDefault (ZOptional (ZNumber [ZInt, ZMin 1])) (JNum 1)),
      (''limit'', ZDefault (ZOptional (ZNumber [ZInt, ZMin 1, ZMax 100])) (JNum 20))]"

definition animalGetSchema :: shape where
  "animalGetSchema = [(''id'', ZNumber [ZInt, ZPositive])]"

definition organizationSearchSchema :: shape where
  "organizationSearchSchema =
     [(''name'', ZOptional ZString),
      (''location'', ZOptional ZString),
      (''distance'', ZOptional (ZNumber [ZInt, ZPositive])),
      (''country'', ZOptional ZString),
      (''state'', ZOptional ZString),
      (''query'', ZOptional ZString),
      (''sort'', ZOptional (ZEnum [''distance'', ''-distance'', ''name'', ''-name'',
                                    ''country'', ''-country'', ''state'', ''-state''])),
      (''page'', ZDefault (ZOptional (ZNumber [ZInt, ZMin 1])) (JNum 1)),
      (''limit'', ZDefault (ZOptional (ZNumber [ZInt, ZMin 1, ZMax 100])) (JNum 20))]"

definition organizationGetSchema :: shape where
  "organizationGetSchema = [(''id'', ZString)]"

definition animalTypesSchema :: shape where
  "animalTypesSchema = []"

definition animalTypeSchema :: shape where
  "animalTypeSchema = [(''type'', ZString)]"

definition animalBreedsSchema :: shape where
  "animalBreedsSchema = [(''type'', ZString)]"

section \<open>Petfinder API functions\<close>

definition PETFINDER_BASE :: string where
  "PETFINDER_BASE = ''https://api.petfinder.com/v2''"

fun append_all :: "string \<Rightarrow> json list \<Rightarrow> js_error + (string \<times> text_part) list" where
  "append_all key [] = Inr []"
| "append_all key (v # vs) =
     (case call_toString v of
        Inl e \<Rightarrow> Inl e
      | Inr t \<Rightarrow> (case append_all key vs of Inl e \<Rightarrow> Inl e | Inr q \<Rightarrow> Inr ((key, t) # q)))"

text \<open>The body of the \<^verbatim>\<open>forEach\<close> callback that fills \<^verbatim>\<open>searchParams\<close>.\<close>

definition append_entry :: "string \<Rightarrow> json \<Rightarrow> js_error + (string \<times> text_part) list" where
  "append_entry key v =
     (case v of
        JNull \<Rightarrow> Inr []
      | JArr vs \<Rightarrow> append_all key vs
      | _ \<Rightarrow> (case call_toString v of Inl e \<Rightarrow> Inl e | Inr t \<Rightarrow> Inr [(key, t)]))"

fun searchParams :: "(string \<times> json) list \<Rightarrow> js_error + (string \<times> text_part) list" where
  "searchParams [] = Inr []"
| "searchParams ((key, v) # es) =
     (case append_entry key v of
        Inl e \<Rightarrow> Inl e
      | Inr q \<Rightarrow> (case searchParams es of Inl e \<Rightarrow> Inl e | Inr q' \<Rightarrow> Inr (q @ q')))"

text \<open>
  \<^verbatim>\<open>petfinderRequest(endpoint, params)\<close>. The header \<^verbatim>\<open>`Bearer ${token}`\<close>
  interpolates the token, whatever value it is, before the request is sent.
\<close>

definition petfinderRequest ::
  "world \<Rightarrow> state \<Rightarrow> template \<Rightarrow> (string \<times> json) list option \<Rightarrow> (js_error + json) \<times> state" where
  "petfinderRequest w s endpoint params =
     (let clientId = ctx_clientId (requestContext s);
          clientSecret = ctx_clientSecret (requestContext s) in
      if no_string clientId \<or> no_string clientSecret then
        (Inl (Error [Lit ''Request context missing credentials'']), s)
      else
        case getAccessToken w s clientId clientSecret of
          (Inl e, s1) \<Rightarrow> (Inl e, s1)
        | (Inr token, s1) \<Rightarrow>
            (case searchParams (case params of None \<Rightarrow> [] | Some es \<Rightarrow> es) of
               Inl e \<Rightarrow> (Inl e, s1)
             | Inr q \<Rightarrow>
                 let u = Url (Lit PETFINDER_BASE # endpoint) q in
                 (case interpolate token of
                    Inl e \<Rightarrow> (Inl e, s1)
                  | Inr bearer \<Rightarrow>
                      let s2 = s1\<lparr>fetches := fetches s1 @ [ApiFetch u token]\<rparr> in
                      (case api w u token of
                         Rejected \<Rightarrow> (Inl (TypeError ''fetch failed''), s2)
                       | Resolved r \<Rightarrow>
                           if \<not> ok r then
                             (Inl (PetfinderAPIError (status r) (statusText r)
                                     (case json_parse w (body_text r) of
                                        Some errorBody \<Rightarrow> errorBody
                                      | None \<Rightarrow> JStr (body_text r))
                                     [Lit ''Petfinder API error ('',
                                      ToStr (Some (JNum (of_int (status r)))),
                                      Lit ''): '', Lit (body_text r)]), s2)
                           else
                             (case json_result r of
                                None \<Rightarrow> (Inl SyntaxError, s2)
                              | Some j \<Rightarrow> (Inr j, s2))))))"

text \<open>
  The endpoint \<^verbatim>\<open>`${before}${params[k]}${after}`\<close> of the four lookups by id or type,
  followed by the request without query parameters.
\<close>

definition request_by ::
  "world \<Rightarrow> state \<Rightarrow> string \<Rightarrow> string \<Rightarrow> string \<Rightarrow> json option \<Rightarrow> (js_error + json) \<times> state" where
  "request_by w s before k after params =
     (case get_prop params k of
        Inl e \<Rightarrow> (Inl e, s)
      | Inr v \<Rightarrow>
          (case interpolate v of
             Inl e \<Rightarrow> (Inl e, s)
           | Inr t \<Rightarrow> petfinderRequest w s [Lit before, t, Lit after] None))"

definition searchAnimals :: "world \<Rightarrow> state \<Rightarrow> (string \<times> json) list \<Rightarrow> (js_error + json) \<times> state" where
  "searchAnimals w s params = petfinderRequest w s [Lit ''/animals''] (Some params)"

definition getAnimal :: "world \<Rightarrow> state \<Rightarrow> json option \<Rightarrow> (js_error + json) \<times> state" where
  "getAnimal w s params = request_by w s ''/animals/'' ''id'' [] params"

definition searchOrganizations ::
  "world \<Rightarrow> state \<Rightarrow> (string \<times> json) list \<Rightarrow> (js_error + json) \<times> state" where
  "searchOrganizations w s params = petfinderRequest w s [Lit ''/organizations''] (Some params)"

definition getOrganization :: "world \<Rightarrow> state \<Rightarrow> json option \<Rightarrow> (js_error + json) \<times> state" where
  "getOrganization w s params = request_by w s ''/organizations/'' ''id'' [] params"

definition getAnimalTypes :: "world \<Rightarrow> state \<Rightarrow> (js_error + json) \<times> state" where
  "getAnimalTypes w s = petfinderRequest w s [Lit ''/types''] None"

definition getAnimalType :: "world \<Rightarrow> state \<Rightarrow> json option \<Rightarrow> (js_error + json) \<times> state" where
  "getAnimalType w s params = request_by w s ''/types/'' ''type'' [] params"

definition getAnimalBreeds :: "world \<Rightarrow> state \<Rightarrow> json option \<Rightarrow> (js_error + json) \<times> state" where
  "getAnimalBreeds w s params = request_by w s ''/types/'' ''type'' ''/breeds'' params"

section \<open>MCP tool implementations\<close>

text \<open>A content block \<^verbatim>\<open>{type: 'text', text: ...}\<close>.\<close>

datatype content_block = TextBlock template

text \<open>
  What a handler returns: an object \<^verbatim>\<open>{content: [...]}\<close> built by the tool, or some
  other JavaScript value (only the functions inherited from \<^verbatim>\<open>Object.prototype\<close> do that;
  a wrapper object around a primitive is written as the primitive).
\<close>

datatype tool_output = Content "content_block list" | Returned json

text \<open>The value of \<^verbatim>\<open>x?.length || 0\<close>.\<close>

fun length_or_0 :: "json option \<Rightarrow> json" where
  "length_or_0 (Some (JArr xs)) = JNum (of_nat (length xs))"
| "length_or_0 (Some (JStr s)) = JNum (of_nat (length s))"
| "length_or_0 (Some (JObj kvs)) =
     (case map_of kvs ''length'' of
        None \<Rightarrow> JNum 0
      | Some v \<Rightarrow> if truthy (Some v) then v else JNum 0)"
| "length_or_0 _ = JNum 0"

text \<open>
  The return statement of \<^verbatim>\<open>searchPets\<close> and \<^verbatim>\<open>searchOrgs\<close>: the summary line counts
  \<^verbatim>\<open>result[k]\<close>, the second block is the raw payload.
\<close>

definition found_blocks :: "json \<Rightarrow> string \<Rightarrow> string \<Rightarrow> js_error + tool_output" where
  "found_blocks result k rest =
     (case get_prop (Some result) k of
        Inl e \<Rightarrow> Inl e
      | Inr xs \<Rightarrow>
          (case interpolate (Some (length_or_0 xs)) of
             Inl e \<Rightarrow> Inl e
           | Inr n \<Rightarrow>
               Inr (Content
                 [TextBlock [Lit ''Found '', n, Lit rest],
                  TextBlock [Stringify result]])))"

text \<open>
  The return statement of the lookups by id or type: the summary line interpolates
  \<^verbatim>\<open>input[k]\<close>.
\<close>

definition detail_blocks :: "json option \<Rightarrow> string \<Rightarrow> string \<Rightarrow> json \<Rightarrow> js_error + tool_output" where
  "detail_blocks input k before result =
     (case get_prop input k of
        Inl e \<Rightarrow> Inl e
      | Inr v \<Rightarrow>
          (case interpolate v of
             Inl e \<Rightarrow> Inl e
           | Inr t \<Rightarrow>
               Inr (Content [TextBlock [Lit before, t, Lit '':''], TextBlock [Stringify result]])))"

definition searchPets :: "world \<Rightarrow> state \<Rightarrow> json option \<Rightarrow> (js_error + tool_output) \<times> state" where
  "searchPets w s input =
     (let inputWithDefaults =
            spread [(''status'', JStr ''adoptable''), (''sort'', JStr ''recent''),
                    (''page'', JNum 1), (''limit'', JNum 20)] input in
      case zparse_object animalSearchSchema inputWithDefaults of
        Inl issues \<Rightarrow> (Inl (ZodError issues), s)
      | Inr validatedInput \<Rightarrow>
          (case searchAnimals w s validatedInput of
             (Inl e, s1) \<Rightarrow> (Inl e, s1)
           | (Inr result, s1) \<Rightarrow> (found_blocks result ''animals'' '' pets matching your search criteria.'', s1)))"

definition getPet :: "world \<Rightarrow> state \<Rightarrow> json option \<Rightarrow> (js_error + tool_output) \<times> state" where
  "getPet w s input =
     (case getAnimal w s input of
        (Inl e, s1) \<Rightarrow> (Inl e, s1)
      | (Inr result, s1) \<Rightarrow> (detail_blocks input ''id'' ''Pet details for ID '' result, s1))"

definition searchOrgs :: "world \<Rightarrow> state \<Rightarrow> json option \<Rightarrow> (js_error + tool_output) \<times> state" where
  "searchOrgs w s input =
     (let inputWithDefaults = spread [(''page'', JNum 1), (''limit'', JNum 20)] input in
      case zparse_object organizationSearchSchema inputWithDefaults of
        Inl issues \<Rightarrow> (Inl (ZodError issues), s)
      | Inr validatedInput \<Rightarrow>
          (case searchOrganizations w s validatedInput of
             (Inl e, s1) \<Rightarrow> (Inl e, s1)
           | (Inr result, s1) \<Rightarrow> (found_blocks result ''organizations''
                                   '' organizations matching your search criteria.'', s1)))"

definition getOrg :: "world \<Rightarrow> state \<Rightarrow> json option \<Rightarrow> (js_error + tool_output) \<times> state" where
  "getOrg w s input =
     (case getOrganization w s input of
        (Inl e, s1) \<Rightarrow> (Inl e, s1)
      | (Inr result, s1) \<Rightarrow>
          (detail_blocks input ''id'' ''Organization details for ID '' result, s1))"

definition listAnimalTypes :: "world \<Rightarrow> state \<Rightarrow> (js_error + tool_output) \<times> state" where
  "listAnimalTypes w s =
     (case getAnimalTypes w s of
        (Inl e, s1) \<Rightarrow> (Inl e, s1)
      | (Inr result, s1) \<Rightarrow>
          (Inr (Content [TextBlock [Lit ''Available animal types:''],
                         TextBlock [Stringify result]]), s1))"

definition getAnimalTypeDetails ::
  "world \<Rightarrow> state \<Rightarrow> json option \<Rightarrow> (js_error + tool_output) \<times> state" where
  "getAnimalTypeDetails w s input =
     (case getAnimalType w s input of
        (Inl e, s1) \<Rightarrow> (Inl e, s1)
      | (Inr result, s1) \<Rightarrow>
          (detail_blocks input ''type'' ''Animal type details for '' result, s1))"

definition listAnimalBreeds ::
  "world \<Rightarrow> state \<Rightarrow> json option \<Rightarrow> (js_error + tool_output) \<times> state" where
  "listAnimalBreeds w s input =
     (case getAnimalBreeds w s input of
        (Inl e, s1) \<Rightarrow> (Inl e, s1)
      | (Inr result, s1) \<Rightarrow>
          (detail_blocks input ''type'' ''Available breeds for '' result, s1))"

section \<open>MCP protocol implementation\<close>

datatype data_value = DNumber int | DString string | DTemplate template | DJson json

record rpc_error =
  code :: int
  message :: template
  data :: "(string \<times> data_value) list option"

text \<open>
  The JSON schema published for a tool: the schema it was derived from and the
  \<^verbatim>\<open>required\<close> array (\<open>None\<close> when the property is absent).
\<close>

record JSONSchema =
  schema_of :: shape
  required :: "string list option"

record Tool =
  tool_name :: string
  tool_title :: string
  tool_description :: string
  inputSchema :: JSONSchema

datatype rpc_result =
    InitializeResult string bool string string
  | ToolsListResult "Tool list"
  | ToolContent "content_block list"
  | ToolValue json

text \<open>
  \<^verbatim>\<open>MCPResponse\<close>; \<open>msg_id\<close> is its \<^verbatim>\<open>id\<close>. A field that is \<open>None\<close> is
  \<^verbatim>\<open>undefined\<close> and is left out by \<^verbatim>\<open>JSON.stringify\<close>.
\<close>

record MCPResponse =
  jsonrpc :: string
  msg_id :: "json option"
  result :: "rpc_result option"
  error :: "rpc_error option"

definition mapHTTPStatusToJSONRPCError :: "int \<Rightarrow> int" where
  "mapHTTPStatusToJSONRPCError st =
     (if st = 400 then - 32602
      else if st = 401 then - 32001
      else if st = 403 then - 32002
      else if st = 404 then - 32003
      else if st = 429 then - 32004
      else if st = 500 \<or> st = 502 \<or> st = 503 \<or> st = 504 then - 32603
      else - 32603)"

definition getErrorMessage :: "int \<Rightarrow> string" where
  "getErrorMessage st =
     (if st = 400 then ''Invalid request parameters''
      else if st = 401 then ''Authentication failed - invalid credentials''
      else if st = 403 then ''Access denied - insufficient permissions''
      else if st = 404 then ''Resource not found''
      else if st = 429 then ''Rate limit exceeded''
      else if st = 500 then ''Internal server error''
      else if st = 502 then ''Bad gateway''
      else if st = 503 then ''Service unavailable''
      else if st = 504 then ''Gateway timeout''
      else ''Unknown error'')"

text \<open>\<^verbatim>\<open>error.message\<close> of a thrown value.\<close>

fun error_message :: "js_error \<Rightarrow> template" where
  "error_message (Error m) = m"
| "error_message (TypeError d) = [EngineText d]"
| "error_message SyntaxError = [EngineText ''JSON Parse error'']"
| "error_message (ZodError issues) = [IssuesJson issues]"
| "error_message (PetfinderAPIError st stText body m) = m"

text \<open>\<^verbatim>\<open>if (parsedBody[k]) errorData[k] = parsedBody[k]\<close>.\<close>

definition copy_if_truthy ::
  "json \<Rightarrow> string \<Rightarrow> (string \<times> data_value) list \<Rightarrow> (string \<times> data_value) list" where
  "copy_if_truthy parsedBody k errorData =
     (case own_prop parsedBody k of
        None \<Rightarrow> errorData
      | Some v \<Rightarrow> if truthy (Some v) then (k, DJson v) # errorData else errorData)"

text \<open>
  The \<^verbatim>\<open>try\<close> block of \<^verbatim>\<open>createErrorResponse\<close> that reads the RFC 7807 fields of the
  upstream body. A failing \<^verbatim>\<open>JSON.parse\<close>, and the property read on a parsed \<^verbatim>\<open>null\<close>,
  throw before any assignment and leave \<^verbatim>\<open>errorData\<close> as it was.
\<close>

definition problem_details ::
  "world \<Rightarrow> json \<Rightarrow> (string \<times> data_value) list \<Rightarrow> (string \<times> data_value) list" where
  "problem_details w body errorData =
     (case body of
        JStr b \<Rightarrow>
          (case json_parse w b of
             None \<Rightarrow> errorData
           | Some JNull \<Rightarrow> errorData
           | Some parsedBody \<Rightarrow>
               copy_if_truthy parsedBody ''invalid-params''
                 (copy_if_truthy parsedBody ''detail''
                   (copy_if_truthy parsedBody ''title''
                     (copy_if_truthy parsedBody ''type'' errorData))))
      | JObj kvs \<Rightarrow> map (\<lambda>(k, v). (k, DJson v)) kvs @ errorData
      | JArr xs \<Rightarrow> map (\<lambda>(k, v). (k, DJson v)) (index_entries 0 xs) @ errorData
      | _ \<Rightarrow> errorData)"

definition createErrorResponse :: "world \<Rightarrow> json option \<Rightarrow> js_error \<Rightarrow> int \<Rightarrow> MCPResponse" where
  "createErrorResponse w ident err fallbackCode =
     (case err of
        PetfinderAPIError st stText body m \<Rightarrow>
          \<lparr>jsonrpc = ''2.0'', msg_id = ident, result = None,
           error = Some \<lparr>code = mapHTTPStatusToJSONRPCError st,
                         message = [Lit (getErrorMessage st)],
                         data = Some (problem_details w body
                                  [(''status'', DNumber st), (''title'', DString stText),
                                   (''detail'', DTemplate m)])\<rparr>\<rparr>
      | _ \<Rightarrow>
          \<lparr>jsonrpc = ''2.0'', msg_id = ident, result = None,
           error = Some \<lparr>code = fallbackCode, message = error_message err, data = None\<rparr>\<rparr>)"

subsection \<open>The tool catalogue\<close>

fun isOptional :: "zod \<Rightarrow> bool" where
  "isOptional (ZOptional z) = True"
| "isOptional (ZDefault z d) = True"
| "isOptional _ = False"

fun has_default :: "zod \<Rightarrow> bool" where
  "has_default (ZDefault z d) = True"
| "has_default _ = False"

text \<open>
  The \<^verbatim>\<open>required\<close> array that the library's \<^verbatim>\<open>z.toJSONSchema\<close> emits for an object
  schema: the fields whose output may not be \<^verbatim>\<open>undefined\<close>; the property is absent when
  there is none.
\<close>

definition toJSONSchema_required :: "shape \<Rightarrow> string list option" where
  "toJSONSchema_required sh =
     (case map fst (filter (\<lambda>(k, z). case z of ZOptional z' \<Rightarrow> False | _ \<Rightarrow> True) sh) of
        [] \<Rightarrow> None
      | ks \<Rightarrow> Some ks)"

definition zodToMCPSchema :: "shape \<Rightarrow> JSONSchema" where
  "zodToMCPSchema sh =
     \<lparr>schema_of = sh,
      required =
        (case toJSONSchema_required sh of
           None \<Rightarrow> None
         | Some ks \<Rightarrow>
             (case filter (\<lambda>fieldName. case map_of sh fieldName of
                                          None \<Rightarrow> False
                                        | Some field \<Rightarrow> \<not> isOptional field \<and> \<not> has_default field) ks of
                [] \<Rightarrow> None
              | ks' \<Rightarrow> Some ks'))\<rparr>"

definition tools :: "Tool list" where
  "tools =
     [\<lparr>tool_name = ''pets.search'', tool_title = ''Search for adoptable pets'',
       tool_description = ''Search for adoptable pets by type, breed, size, location, and other criteria. Optional parameters: status (default: \"adoptable\"), sort (default: \"recent\"), page (default: 1), limit (default: 20).'',
       inputSchema = zodToMCPSchema animalSearchSchema\<rparr>,
      \<lparr>tool_name = ''pets.get'', tool_title = ''Get pet details'',
       tool_description = ''Get detailed information about a specific pet by ID.'',
       inputSchema = zodToMCPSchema animalGetSchema\<rparr>,
      \<lparr>tool_name = ''organizations.search'',
       tool_title = ''Search for animal welfare organizations'',
       tool_description = ''Search for animal welfare organizations by name, location, and other criteria. Optional parameters: sort, page (default: 1), limit (default: 20).'',
       inputSchema = zodToMCPSchema organizationSearchSchema\<rparr>,
      \<lparr>tool_name = ''organizations.get'', tool_title = ''Get organization details'',
       tool_description = ''Get detailed information about a specific organization by ID.'',
       inputSchema = zodToMCPSchema organizationGetSchema\<rparr>,
      \<lparr>tool_name = ''types.list'', tool_title = ''List animal types'',
       tool_description = ''Get a list of all available animal types.'',
       inputSchema = zodToMCPSchema animalTypesSchema\<rparr>,
      \<lparr>tool_name = ''types.get'', tool_title = ''Get animal type details'',
       tool_description = ''Get detailed information about a specific animal type.'',
       inputSchema = zodToMCPSchema animalTypeSchema\<rparr>,
      \<lparr>tool_name = ''breeds.list'', tool_title = ''List animal breeds'',
       tool_description = ''Get a list of breeds for a specific animal type.'',
       inputSchema = zodToMCPSchema animalBreedsSchema\<rparr>]"

subsection \<open>The handler table\<close>

text \<open>
  What a property read on \<^verbatim>\<open>allTools\<close> can yield: one of the seven tool functions, or a
  member that the object literal inherits from \<^verbatim>\<open>Object.prototype\<close>.
  \<open>Object_method\<close> stands for the inherited functions that throw a \<^verbatim>\<open>TypeError\<close>
  whenever they are called without a receiver; \<open>Object_prototype\<close> is the value of
  \<^verbatim>\<open>__proto__\<close>, which is not a function.
\<close>

datatype tool_handler =
    SearchPets | GetPet | SearchOrgs | GetOrg
  | ListAnimalTypes | GetAnimalTypeDetails | ListAnimalBreeds
  | Object_constructor | Object_toString | Object_isPrototypeOf
  | Object_method | Object_prototype

definition allTools :: "(string \<times> tool_handler) list" where
  "allTools =
     [(''pets.search'', SearchPets),
      (''pets.get'', GetPet),
      (''organizations.search'', SearchOrgs),
      (''organizations.get'', GetOrg),
      (''types.list'', ListAnimalTypes),
      (''types.get'', GetAnimalTypeDetails),
      (''breeds.list'', ListAnimalBreeds)]"

definition Object_prototype_members :: "(string \<times> tool_handler) list" where
  "Object_prototype_members =
     [(''constructor'', Object_constructor),
      (''toString'', Object_toString),
      (''isPrototypeOf'', Object_isPrototypeOf),
      (''toLocaleString'', Object_method),
      (''valueOf'', Object_method),
      (''hasOwnProperty'', Object_method),
      (''propertyIsEnumerable'', Object_method),
      (''__defineGetter__'', Object_method),
      (''__defineSetter__'', Object_method),
      (''__lookupGetter__'', Object_method),
      (''__lookupSetter__'', Object_method),
      (''__proto__'', Object_prototype)]"

text \<open>\<^verbatim>\<open>allTools[key]\<close> for a string key: own properties first, then the prototype.\<close>

definition allTools_get :: "string \<Rightarrow> tool_handler option" where
  "allTools_get key =
     (case map_of allTools key of
        Some h \<Rightarrow> Some h
      | None \<Rightarrow> map_of Object_prototype_members key)"

text \<open>
  \<^verbatim>\<open>allTools[name]\<close> for a value whose string conversion does not throw. A string is its
  own key. An array of one element converts like that element (a \<^verbatim>\<open>null\<close> element gives
  the empty string). Every other value converts to a string that names no property of
  \<^verbatim>\<open>allTools\<close>: a number, \<^verbatim>\<open>true\<close>, \<^verbatim>\<open>false\<close>, \<^verbatim>\<open>null\<close>, \<^verbatim>\<open>[object Object]\<close>, the
  empty string of an empty array, or a string with a comma.
\<close>

fun lookup_key :: "json \<Rightarrow> tool_handler option" where
  "lookup_key (JStr key) = allTools_get key"
| "lookup_key (JArr [JNull]) = None"
| "lookup_key (JArr [x]) = lookup_key x"
| "lookup_key _ = None"

definition lookup_handler :: "json option \<Rightarrow> js_error + tool_handler option" where
  "lookup_handler name =
     (case name of
        None \<Rightarrow> Inr None
      | Some j \<Rightarrow> if toString_throws j then Inl cannot_convert else Inr (lookup_key j))"

subsection \<open>Request handling\<close>

text \<open>
  Calling the value found in the table with \<^verbatim>\<open>args\<close> and no receiver. The call of a
  non-function, and of an inherited function that needs its receiver, throws a
  \<^verbatim>\<open>TypeError\<close>; \<^verbatim>\<open>Object(args)\<close> returns an object argument itself;
  \<^verbatim>\<open>Object.prototype.toString\<close> returns the tag of \<^verbatim>\<open>undefined\<close>;
  \<^verbatim>\<open>isPrototypeOf\<close> returns \<^verbatim>\<open>false\<close> for an argument that is not an object.
\<close>

fun call_handler ::
  "world \<Rightarrow> state \<Rightarrow> tool_handler \<Rightarrow> json option \<Rightarrow> (js_error + tool_output) \<times> state" where
  "call_handler w s SearchPets args = searchPets w s args"
| "call_handler w s GetPet args = getPet w s args"
| "call_handler w s SearchOrgs args = searchOrgs w s args"
| "call_handler w s GetOrg args = getOrg w s args"
| "call_handler w s ListAnimalTypes args = listAnimalTypes w s"
| "call_handler w s GetAnimalTypeDetails args = getAnimalTypeDetails w s args"
| "call_handler w s ListAnimalBreeds args = listAnimalBreeds w s args"
| "call_handler w s Object_constructor args =
     (Inr (Returned (case args of None \<Rightarrow> JObj [] | Some JNull \<Rightarrow> JObj [] | Some j \<Rightarrow> j)), s)"
| "call_handler w s Object_toString args = (Inr (Returned (JStr ''[object Undefined]'')), s)"
| "call_handler w s Object_isPrototypeOf args =
     (case args of
        Some (JObj kvs) \<Rightarrow> (Inl (TypeError ''undefined is not an object''), s)
      | Some (JArr xs) \<Rightarrow> (Inl (TypeError ''undefined is not an object''), s)
      | _ \<Rightarrow> (Inr (Returned (JBool False)), s))"
| "call_handler w s Object_method args = (Inl (TypeError ''undefined is not an object''), s)"
| "call_handler w s Object_prototype args = (Inl (TypeError ''handler is not a function''), s)"

text \<open>Headers as the platform stores them: lower-case names, one value per name.\<close>

type_synonym headers = "(string \<times> string) list"

definition extractCredentialsFromHeaders :: "headers \<Rightarrow> string option \<times> string option" where
  "extractCredentialsFromHeaders hs =
     (map_of hs ''x-petfinder-client-id'', map_of hs ''x-petfinder-client-secret'')"

text \<open>
  The expression of line 681: an object that has a property \<^verbatim>\<open>content\<close> is the result
  as it is, anything else is wrapped in one text block.
\<close>

fun tool_result :: "tool_output \<Rightarrow> rpc_result" where
  "tool_result (Content blocks) = ToolContent blocks"
| "tool_result (Returned (JObj kvs)) =
     (if map_of kvs ''content'' \<noteq> None then ToolValue (JObj kvs)
      else ToolContent [TextBlock [Stringify (JObj kvs)]])"
| "tool_result (Returned j) = ToolContent [TextBlock [Stringify j]]"

definition authentication_required :: template where
  "authentication_required =
     [Lit ''Authentication required - you need to pass both x-petfinder-client-id and x-petfinder-client-secret headers'']"

text \<open>
  The arm \<^verbatim>\<open>case 'tools/call'\<close>. \<open>Inl\<close> is an exception that leaves
  \<^verbatim>\<open>handleMCPRequest\<close>: the destructuring of line 644 and the property read of line 645
  are outside the \<^verbatim>\<open>try\<close> block.
\<close>

definition tools_call ::
  "world \<Rightarrow> state \<Rightarrow> json \<Rightarrow> headers \<Rightarrow> (js_error + MCPResponse) \<times> state" where
  "tools_call w s request hs =
     (case own_prop request ''params'' of
        None \<Rightarrow> (Inl (TypeError ''Right side of assignment cannot be destructured''), s)
      | Some JNull \<Rightarrow> (Inl (TypeError ''Right side of assignment cannot be destructured''), s)
      | Some params \<Rightarrow>
          let name = own_prop params ''name'';
              args = own_prop params ''arguments'' in
          (case lookup_handler name of
             Inl e \<Rightarrow> (Inl e, s)
           | Inr handler \<Rightarrow>
               let (clientId, clientSecret) = extractCredentialsFromHeaders hs in
               (case handler of
                  None \<Rightarrow>
                    (case interpolate name of
                       Inl e \<Rightarrow> (Inl e, s)
                     | Inr t \<Rightarrow>
                         (Inr \<lparr>jsonrpc = ''2.0'', msg_id = own_prop request ''id'', result = None,
                               error = Some \<lparr>code = - 32601,
                                             message = [Lit ''Tool '', t, Lit '' not found''],
                                             data = None\<rparr>\<rparr>, s))
                | Some h \<Rightarrow>
                    if no_string clientId \<or> no_string clientSecret then
                      (Inr \<lparr>jsonrpc = ''2.0'', msg_id = own_prop request ''id'', result = None,
                            error = Some \<lparr>code = - 32001, message = authentication_required,
                                          data = None\<rparr>\<rparr>, s)
                    else
                      let s1 = s\<lparr>requestContext :=
                                   \<lparr>ctx_clientId = clientId, ctx_clientSecret = clientSecret\<rparr>\<rparr> in
                      (case call_handler w s1 h args of
                         (Inr out, s2) \<Rightarrow>
                           (Inr \<lparr>jsonrpc = ''2.0'', msg_id = own_prop request ''id'',
                                 result = Some (tool_result out), error = None\<rparr>,
                            s2\<lparr>requestContext := empty_context\<rparr>)
                       | (Inl e, s2) \<Rightarrow>
                           (Inr (createErrorResponse w (own_prop request ''id'') e (- 32603)),
                            s2\<lparr>requestContext := empty_context\<rparr>)))))"

definition handleMCPRequest ::
  "world \<Rightarrow> state \<Rightarrow> json \<Rightarrow> headers \<Rightarrow> (js_error + MCPResponse) \<times> state" where
  "handleMCPRequest w s request hs =
     (case get_prop (Some request) ''method'' of
        Inl e \<Rightarrow> (Inl e, s)
      | Inr method \<Rightarrow>
          if method = Some (JStr ''initialize'') then
            (Inr \<lparr>jsonrpc = ''2.0'', msg_id = own_prop request ''id'',
                  result = Some (InitializeResult ''2024-11-05'' True ''petfinder-mcp'' ''1.0.0''),
                  error = None\<rparr>, s)
          else if method = Some (JStr ''tools/list'') then
            (Inr \<lparr>jsonrpc = ''2.0'', msg_id = own_prop request ''id'',
                  result = Some (ToolsListResult tools), error = None\<rparr>, s)
          else if method = Some (JStr ''tools/call'') then tools_call w s request hs
          else
            (case interpolate method of
               Inl e \<Rightarrow> (Inl e, s)
             | Inr t \<Rightarrow>
                 (Inr \<lparr>jsonrpc = ''2.0'',
                       msg_id = (if truthy (own_prop request ''id'') then own_prop request ''id''
                                 else Some (JStr ''unknown'')),
                       result = None,
                       error = Some \<lparr>code = - 32601,
                                     message = [Lit ''Method '', t, Lit '' not found''],
                                     data = None\<rparr>\<rparr>, s)))"

section \<open>HTTP server\<close>

record Request =
  http_method :: string
  pathname :: string
  req_headers :: headers
  bodyText :: string

datatype http_body = NoBody | TextBody string | JsonBody MCPResponse

record HttpResponse =
  http_status :: int
  http_body :: http_body

text \<open>The \<^verbatim>\<open>catch\<close> block of \<^verbatim>\<open>fetch\<close>.\<close>

definition request_processing_error :: "world \<Rightarrow> js_error \<Rightarrow> HttpResponse" where
  "request_processing_error w e =
     \<lparr>http_status = 400,
      http_body = JsonBody (createErrorResponse w (Some (JStr ''unknown'')) e (- 32700))\<rparr>"

text \<open>
  The \<^verbatim>\<open>try\<close> block of \<^verbatim>\<open>fetch\<close>. The two log lines interpolate \<^verbatim>\<open>body.method\<close> and
  \<^verbatim>\<open>body.id\<close>, so they throw where the property read or the string conversion does.
\<close>

definition process_body :: "world \<Rightarrow> state \<Rightarrow> headers \<Rightarrow> string \<Rightarrow> HttpResponse \<times> state" where
  "process_body w s hs txt =
     (case json_parse w txt of
        None \<Rightarrow> (request_processing_error w SyntaxError, s)
      | Some body \<Rightarrow>
          (case get_prop (Some body) ''method'' of
             Inl e \<Rightarrow> (request_processing_error w e, s)
           | Inr method \<Rightarrow>
               (case interpolate method of
                  Inl e \<Rightarrow> (request_processing_error w e, s)
                | Inr t \<Rightarrow>
                    (case interpolate (own_prop body ''id'') of
                       Inl e \<Rightarrow> (request_processing_error w e, s)
                     | Inr t' \<Rightarrow>
                         (case handleMCPRequest w s body hs of
                            (Inl e, s1) \<Rightarrow> (request_processing_error w e, s1)
                          | (Inr response, s1) \<Rightarrow>
                              (\<lparr>http_status = 200, http_body = JsonBody response\<rparr>, s1))))))"

definition serve_fetch :: "world \<Rightarrow> state \<Rightarrow> Request \<Rightarrow> HttpResponse \<times> state" where
  "serve_fetch w s req =
     (if http_method req = ''OPTIONS'' then (\<lparr>http_status = 200, http_body = NoBody\<rparr>, s)
      else if pathname req = ''/healthz'' then
        (\<lparr>http_status = 200, http_body = TextBody ''OK''\<rparr>, s)
      else if http_method req \<noteq> ''POST'' \<or> pathname req \<noteq> ''/mcp'' then
        (\<lparr>http_status = 404, http_body = TextBody ''Not found''\<rparr>, s)
      else process_body w s (req_headers req) (bodyText req))"

section \<open>Observations and concrete scenarios\<close>

text \<open>
  The cache holds an entry for the client that is valid beyond the safety margin at the
  clock reading of \<^verbatim>\<open>getAccessToken\<close>.
\<close>

definition still_valid :: "world \<Rightarrow> state \<Rightarrow> string \<Rightarrow> bool" where
  "still_valid w s clientId =
     (case tokenCache s clientId of
        None \<Rightarrow> False
      | Some token \<Rightarrow> js_gt (to_number w (expires_at token)) (now_getAccessToken w + 60))"

text \<open>The error code of a response, when the handler returned one that carries an error.\<close>

definition response_code :: "(js_error + MCPResponse) \<times> state \<Rightarrow> int option" where
  "response_code out =
     (case fst out of
        Inl e \<Rightarrow> None
      | Inr response \<Rightarrow> map_option code (error response))"

text \<open>The state at start-up, and requests served one after the other, each in its own world.\<close>

definition initial_state :: state where
  "initial_state = \<lparr>tokenCache = Map.empty, requestContext = empty_context, fetches = []\<rparr>"

fun serve_all :: "state \<Rightarrow> (world \<times> Request) list \<Rightarrow> state" where
  "serve_all s [] = s"
| "serve_all s ((w, req) # rest) = serve_all (snd (serve_fetch w s req)) rest"

text \<open>A state whose request context still holds the credentials of some caller.\<close>

definition occupied_state :: state where
  "occupied_state =
     initial_state\<lparr>requestContext :=
       \<lparr>ctx_clientId = Some ''other'', ctx_clientSecret = Some ''leftover''\<rparr>\<rparr>"

text \<open>
  Upstream replies with a given status: the token endpoint grants \<open>tok\<close> for \<open>ttl\<close>
  seconds, or grants it in a body without \<^verbatim>\<open>expires_in\<close>; the API returns the value
  \<open>j\<close>. The bodies are the text \<^verbatim>\<open>{}\<close> when read as text.
\<close>

definition token_reply :: "int \<Rightarrow> string \<Rightarrow> int \<Rightarrow> response promise" where
  "token_reply st tok ttl =
     Resolved \<lparr>status = st, statusText = (if st = 200 then ''OK'' else ''Error''),
               body_text = ''{}'',
               json_result = Some (JObj [(''token_type'', JStr ''Bearer''),
                                         (''expires_in'', JNum (of_int ttl)),
                                         (''access_token'', JStr tok)])\<rparr>"

definition token_reply_without_lifetime :: "string \<Rightarrow> response promise" where
  "token_reply_without_lifetime tok =
     Resolved \<lparr>status = 200, statusText = ''OK'', body_text = ''{}'',
               json_result = Some (JObj [(''token_type'', JStr ''Bearer''),
                                         (''access_token'', JStr tok)])\<rparr>"

definition api_reply :: "int \<Rightarrow> json \<Rightarrow> response promise" where
  "api_reply st j =
     Resolved \<lparr>status = st, statusText = (if st = 200 then ''OK'' else ''Error''),
               body_text = ''{}'', json_result = Some j\<rparr>"

text \<open>
  A world at clock reading \<open>t\<close> with fixed upstream replies, and a world in which the
  request body \<open>txt\<close> parses to \<open>body\<close> and the upstream is unreachable.
\<close>

definition example_world :: "int \<Rightarrow> response promise \<Rightarrow> response promise \<Rightarrow> world" where
  "example_world t token api_r =
     \<lparr>now_getAccessToken = t, now_cleanup = t, oauth = (\<lambda>clientId clientSecret. token),
      api = (\<lambda>u bearer. api_r),
      json_parse = (\<lambda>txt. if txt = ''{}'' then Some (JObj []) else None),
      string_to_number = (\<lambda>t. NaN)\<rparr>"

definition world_parsing :: "string \<Rightarrow> json \<Rightarrow> world" where
  "world_parsing txt body =
     \<lparr>now_getAccessToken = 1000, now_cleanup = 1000,
      oauth = (\<lambda>clientId clientSecret. Rejected), api = (\<lambda>u bearer. Rejected),
      json_parse = (\<lambda>t. if t = txt then Some body else None),
      string_to_number = (\<lambda>t. NaN)\<rparr>"

text \<open>A cache entry with a string token and a numeric expiry.\<close>

definition cached :: "string \<Rightarrow> int \<Rightarrow> TokenCache" where
  "cached tok t = \<lparr>access_token = Some (JStr tok), expires_at = NumberValue (Num (of_int t))\<rparr>"

definition example_headers :: headers where
  "example_headers =
     [(''x-petfinder-client-id'', ''id''), (''x-petfinder-client-secret'', ''secret'')]"

text \<open>
  The parsed body \<^verbatim>\<open>{"jsonrpc": "2.0", "id": 1, "method": "tools/call",
  "params": {"name": name, "arguments": args}}\<close>.
\<close>

definition tools_call_request :: "json \<Rightarrow> json \<Rightarrow> json" where
  "tools_call_request name args =
     JObj [(''jsonrpc'', JStr ''2.0''), (''id'', JNum 1), (''method'', JStr ''tools/call''),
           (''params'', JObj [(''name'', name), (''arguments'', args)])]"

text \<open>The parsed body \<^verbatim>\<open>{"jsonrpc": "2.0", "id": 2, "method": "tools/list"}\<close>.\<close>

definition tools_list_request :: json where
  "tools_list_request =
     JObj [(''jsonrpc'', JStr ''2.0''), (''id'', JNum 2), (''method'', JStr ''tools/list'')]"

text \<open>Two request bodies as text, with the values they parse to.\<close>

definition numeric_params_text :: string where
  "numeric_params_text = ''{\"jsonrpc\":\"2.0\",\"id\":7,\"method\":\"tools/call\",\"params\":5}''"

definition numeric_params_body :: json where
  "numeric_params_body =
     JObj [(''jsonrpc'', JStr ''2.0''), (''id'', JNum 7), (''method'', JStr ''tools/call''),
           (''params'', JNum 5)]"

definition no_params_text :: string where
  "no_params_text = ''{\"jsonrpc\":\"2.0\",\"id\":7,\"method\":\"tools/call\"}''"

definition no_params_body :: json where
  "no_params_body =
     JObj [(''jsonrpc'', JStr ''2.0''), (''id'', JNum 7), (''method'', JStr ''tools/call'')]"

text \<open>An entry whose expiry is \<^verbatim>\<open>NaN\<close>, as a reply without \<^verbatim>\<open>expires_in\<close> leaves it.\<close>

definition cached_without_expiry :: "string \<Rightarrow> TokenCache" where
  "cached_without_expiry tok = \<lparr>access_token = Some (JStr tok), expires_at = NumberValue NaN\<rparr>"

section \<open>Properties of the token cache\<close>











text \<open>
  Claim C4. When either credential is absent or empty, \<open>getAccessToken\<close> fails with the
  missing-credentials error and returns the state it was given: no sweep, no lookup, no
  network call, and the token cache unchanged.
\<close>

theorem getAccessToken_missing_credentials:
  "no_string clientId \<or> no_string clientSecret \<Longrightarrow>
     getAccessToken w s clientId clientSecret = (Inl missing_credentials, s)"
  by (cases clientId; cases clientSecret) (auto simp: getAccessToken_def)

theorem getAccessToken_missing_credentials_witness:
  "getAccessToken (example_world 1000 (token_reply 200 ''T1'' 3600) Rejected)
       (initial_state\<lparr>tokenCache := [''old'' \<mapsto> cached ''T0'' 500]\<rparr>)
       (Some ''id'') (Some []) =
     (Inl missing_credentials, initial_state\<lparr>tokenCache := [''old'' \<mapsto> cached ''T0'' 500]\<rparr>)
   \<and> getAccessToken (example_world 1000 (token_reply 200 ''T1'' 3600) Rejected) initial_state
       None (Some ''secret'') = (Inl missing_credentials, initial_state)"
  using getAccessToken_missing_credentials [of "Some ''id''" "Some []"
          "example_world 1000 (token_reply 200 ''T1'' 3600) Rejected"
          "initial_state\<lparr>tokenCache := [''old'' \<mapsto> cached ''T0'' 500]\<rparr>"]
        getAccessToken_missing_credentials [of None "Some ''secret''"
          "example_world 1000 (token_reply 200 ''T1'' 3600) Rejected" initial_state]
  by simp







text \<open>
  A reply without \<^verbatim>\<open>expires_in\<close> is cached with the expiry \<^verbatim>\<open>NaN\<close>: no sweep evicts
  the entry and no lookup accepts it, so the next acquisition for the client fetches again.
\<close>

lemma reply_without_lifetime:
  "getAccessToken (example_world 1000 (token_reply_without_lifetime ''T1'') Rejected)
       initial_state (Some ''id'') (Some ''secret'') =
     (Inr (Some (JStr ''T1'')),
      initial_state\<lparr>tokenCache := [''id'' \<mapsto> cached_without_expiry ''T1''],
        fetches := [TokenFetch ''id'' ''secret'']\<rparr>)"
  "cleanupExpiredTokens (example_world 9000 Rejected Rejected)
       [''id'' \<mapsto> cached_without_expiry ''T1''] ''id'' = Some (cached_without_expiry ''T1'')"
  "\<not> still_valid (example_world 1000 Rejected Rejected)
       (initial_state\<lparr>tokenCache := [''id'' \<mapsto> cached_without_expiry ''T1'']\<rparr>) ''id''"
  by (simp_all add: getAccessToken_def requestNewToken_def cache_new_token_def
        cleanupExpiredTokens_def get_prop_def js_plus_def interpolate_def to_number_def
        example_world_def token_reply_without_lifetime_def initial_state_def ok_def
        cached_without_expiry_def still_valid_def fun_eq_iff)

section \<open>Properties of the protocol adapter\<close>

lemma tools_call_params:
  assumes "own_prop request ''params'' = Some params" and "params \<noteq> JNull"
  shows "tools_call w s request hs =
     (case lookup_handler (own_prop params ''name'') of
        Inl e \<Rightarrow> (Inl e, s)
      | Inr None \<Rightarrow>
          (case interpolate (own_prop params ''name'') of
             Inl e \<Rightarrow> (Inl e, s)
           | Inr t \<Rightarrow>
               (Inr \<lparr>jsonrpc = ''2.0'', msg_id = own_prop request ''id'', result = None,
                     error = Some \<lparr>code = - 32601, message = [Lit ''Tool '', t, Lit '' not found''],
                                   data = None\<rparr>\<rparr>, s))
      | Inr (Some h) \<Rightarrow>
          if no_string (map_of hs ''x-petfinder-client-id'')
             \<or> no_string (map_of hs ''x-petfinder-client-secret'') then
            (Inr \<lparr>jsonrpc = ''2.0'', msg_id = own_prop request ''id'', result = None,
                  error = Some \<lparr>code = - 32001, message = authentication_required,
                                data = None\<rparr>\<rparr>, s)
          else
            (case call_handler w
                    (s\<lparr>requestContext :=
                         \<lparr>ctx_clientId = map_of hs ''x-petfinder-client-id'',
                          ctx_clientSecret = map_of hs ''x-petfinder-client-secret''\<rparr>\<rparr>)
                    h (own_prop params ''arguments'') of
               (Inr out, s2) \<Rightarrow>
                 (Inr \<lparr>jsonrpc = ''2.0'', msg_id = own_prop request ''id'',
                       result = Some (tool_result out), error = None\<rparr>,
                  s2\<lparr>requestContext := empty_context\<rparr>)
             | (Inl e, s2) \<Rightarrow>
                 (Inr (createErrorResponse w (own_prop request ''id'') e (- 32603)),
                  s2\<lparr>requestContext := empty_context\<rparr>)))"
  using assms
  by (cases params)
     (simp_all add: tools_call_def extractCredentialsFromHeaders_def Let_def
        split: sum.splits option.splits)

lemma tools_call_no_params:
  assumes "own_prop request ''params'' = None \<or> own_prop request ''params'' = Some JNull"
  shows "tools_call w s request hs =
     (Inl (TypeError ''Right side of assignment cannot be destructured''), s)"
  using assms by (auto simp: tools_call_def)

lemma handleMCPRequest_tools_call:
  assumes "own_prop request ''method'' = Some (JStr ''tools/call'')"
  shows "handleMCPRequest w s request hs = tools_call w s request hs"
  using assms by (cases request) (simp_all add: handleMCPRequest_def get_prop_def)

lemma tools_call_missing_credentials_state:
  assumes "no_string (map_of hs ''x-petfinder-client-id'')
           \<or> no_string (map_of hs ''x-petfinder-client-secret'')"
  shows "snd (tools_call w s request hs) = s"
proof (cases "own_prop request ''params'' = None \<or> own_prop request ''params'' = Some JNull")
  case True
  then show ?thesis by (simp add: tools_call_no_params)
next
  case False
  then obtain params where "own_prop request ''params'' = Some params" "params \<noteq> JNull"
    by auto
  then show ?thesis
    using assms by (simp add: tools_call_params split: sum.splits option.splits)
qed

lemma tools_call_context:
  "snd (tools_call w s request hs) = s
   \<or> requestContext (snd (tools_call w s request hs)) = empty_context"
proof (cases "own_prop request ''params'' = None \<or> own_prop request ''params'' = Some JNull")
  case True
  then show ?thesis by (simp add: tools_call_no_params)
next
  case False
  then obtain params where "own_prop request ''params'' = Some params" "params \<noteq> JNull"
    by auto
  then show ?thesis
    by (simp add: tools_call_params split: sum.splits option.splits prod.splits)
qed

lemma handleMCPRequest_context:
  "snd (handleMCPRequest w s request hs) = s
   \<or> requestContext (snd (handleMCPRequest w s request hs)) = empty_context"
  using tools_call_context [of w s request hs]
  by (auto simp: handleMCPRequest_def split: sum.splits)

lemma process_body_context:
  "snd (process_body w s hs txt) = s
   \<or> requestContext (snd (process_body w s hs txt)) = empty_context"
proof (cases "json_parse w txt")
  case None
  then show ?thesis by (simp add: process_body_def)
next
  case (Some body)
  show ?thesis
    using handleMCPRequest_context [of w s body hs] Some
    by (auto simp: process_body_def split: sum.splits prod.splits)
qed

lemma serve_fetch_context:
  "snd (serve_fetch w s req) = s
   \<or> requestContext (snd (serve_fetch w s req)) = empty_context"
  using process_body_context [of w s "req_headers req" "bodyText req"]
  by (auto simp: serve_fetch_def)

lemma serve_all_context:
  "requestContext s = empty_context \<Longrightarrow> requestContext (serve_all s rs) = empty_context"
proof (induction rs arbitrary: s)
  case Nil
  then show ?case by simp
next
  case (Cons a rs)
  obtain w req where a: "a = (w, req)" by (cases a)
  from serve_fetch_context [of w s req] Cons.prems
  have "requestContext (snd (serve_fetch w s req)) = empty_context" by auto
  with Cons.IH a show ?case by simp
qed

text \<open>
  Claim C9. A \<^verbatim>\<open>tools/list\<close> request is answered with the catalogue of exactly seven
  tools, named \<^verbatim>\<open>pets.search\<close>, \<^verbatim>\<open>pets.get\<close>, \<^verbatim>\<open>organizations.search\<close>,
  \<^verbatim>\<open>organizations.get\<close>, \<^verbatim>\<open>types.list\<close>, \<^verbatim>\<open>types.get\<close> and \<^verbatim>\<open>breeds.list\<close>,
  whatever the headers hold; the state is returned as it was, so no credential is read
  into the context and no network call is made.
\<close>

theorem tools_list_catalogue:
  "own_prop request ''method'' = Some (JStr ''tools/list'') \<Longrightarrow>
     handleMCPRequest w s request hs =
       (Inr \<lparr>jsonrpc = ''2.0'', msg_id = own_prop request ''id'',
             result = Some (ToolsListResult tools), error = None\<rparr>, s)
     \<and> length tools = 7
     \<and> map tool_name tools =
         [''pets.search'', ''pets.get'', ''organizations.search'', ''organizations.get'',
          ''types.list'', ''types.get'', ''breeds.list'']"
  by (cases request) (simp_all add: handleMCPRequest_def get_prop_def tools_def)

theorem tools_list_catalogue_witness:
  "handleMCPRequest (example_world 1000 Rejected Rejected) initial_state tools_list_request [] =
     (Inr \<lparr>jsonrpc = ''2.0'', msg_id = Some (JNum 2),
           result = Some (ToolsListResult tools), error = None\<rparr>, initial_state)
   \<and> handleMCPRequest (example_world 1000 Rejected Rejected) initial_state tools_list_request
        example_headers =
     (Inr \<lparr>jsonrpc = ''2.0'', msg_id = Some (JNum 2),
           result = Some (ToolsListResult tools), error = None\<rparr>, initial_state)
   \<and> length tools = 7"
  using tools_list_catalogue [of tools_list_request "example_world 1000 Rejected Rejected"
          initial_state "[]"]
        tools_list_catalogue [of tools_list_request "example_world 1000 Rejected Rejected"
          initial_state example_headers]
  by (simp add: tools_list_request_def)

text \<open>
  Claim C2, as stated, fails: the tool-name lookup comes before the credentials check, so
  a \<^verbatim>\<open>tools/call\<close> request without credentials that names an unknown tool is answered
  with code -32601, not -32001.
\<close>

theorem unknown_tool_without_credentials_counterexample:
  "handleMCPRequest (example_world 1000 Rejected Rejected) initial_state
       (tools_call_request (JStr ''pets.lookup'') (JObj [])) [] =
     (Inr \<lparr>jsonrpc = ''2.0'', msg_id = Some (JNum 1), result = None,
           error = Some \<lparr>code = - 32601,
                         message = [Lit ''Tool '', ToStr (Some (JStr ''pets.lookup'')),
                                    Lit '' not found''],
                         data = None\<rparr>\<rparr>, initial_state)"
  by (simp add: handleMCPRequest_def tools_call_def get_prop_def lookup_handler_def
        allTools_get_def allTools_def Object_prototype_members_def
        extractCredentialsFromHeaders_def tools_call_request_def interpolate_def)

text \<open>
  Claim C2, amended. For every \<^verbatim>\<open>tools/call\<close> request in which either credential header
  is missing or empty, the state is returned as it was, so no network call (token exchange
  or API call) is made and no handler runs. When the request has params and the lookup of
  the tool name finds a handler, the response is the authentication-required error with
  code -32001; when the lookup finds none, the response is the tool-not-found error with
  code -32601: the credentials check comes after the lookup and before the handler.
\<close>

theorem tools_call_without_credentials:
  assumes "own_prop request ''method'' = Some (JStr ''tools/call'')"
    and "no_string (fst (extractCredentialsFromHeaders hs))
         \<or> no_string (snd (extractCredentialsFromHeaders hs))"
  shows
    "snd (handleMCPRequest w s request hs) = s
     \<and> (own_prop request ''params'' = Some params \<and> params \<noteq> JNull
          \<and> lookup_handler (own_prop params ''name'') = Inr (Some h) \<longrightarrow>
        fst (handleMCPRequest w s request hs) =
          Inr \<lparr>jsonrpc = ''2.0'', msg_id = own_prop request ''id'', result = None,
               error = Some \<lparr>code = - 32001, message = authentication_required,
                             data = None\<rparr>\<rparr>)
     \<and> (own_prop request ''params'' = Some params \<and> params \<noteq> JNull
          \<and> lookup_handler (own_prop params ''name'') = Inr None \<longrightarrow>
        response_code (handleMCPRequest w s request hs) = Some (- 32601))"
proof -
  from assms(2)
  have missing: "no_string (map_of hs ''x-petfinder-client-id'')
                 \<or> no_string (map_of hs ''x-petfinder-client-secret'')"
    by (simp add: extractCredentialsFromHeaders_def)
  have call: "handleMCPRequest w s request hs = tools_call w s request hs"
    using assms(1) by (rule handleMCPRequest_tools_call)
  have a: "snd (handleMCPRequest w s request hs) = s"
    using missing by (simp add: call tools_call_missing_credentials_state)
  have b: "fst (handleMCPRequest w s request hs) =
          Inr \<lparr>jsonrpc = ''2.0'', msg_id = own_prop request ''id'', result = None,
               error = Some \<lparr>code = - 32001, message = authentication_required,
                             data = None\<rparr>\<rparr>"
    if "own_prop request ''params'' = Some params \<and> params \<noteq> JNull
          \<and> lookup_handler (own_prop params ''name'') = Inr (Some h)"
    using that missing by (auto simp: call tools_call_params)
  have c: "response_code (handleMCPRequest w s request hs) = Some (- 32601)"
    if "own_prop request ''params'' = Some params \<and> params \<noteq> JNull
          \<and> lookup_handler (own_prop params ''name'') = Inr None"
  proof -
    from that have "interpolate (own_prop params ''name'') = Inr (ToStr (own_prop params ''name''))"
      by (auto simp: lookup_handler_def interpolate_def split: option.splits if_splits)
    with that show ?thesis
      by (simp add: call tools_call_params response_code_def)
  qed
  from a b c show ?thesis by blast
qed

theorem tools_call_without_credentials_witness:
  "handleMCPRequest (example_world 1000 (token_reply 200 ''T1'' 3600) Rejected) initial_state
       (tools_call_request (JStr ''pets.get'') (JObj [(''id'', JNum 5)]))
       [(''x-petfinder-client-id'', ''id'')] =
     (Inr \<lparr>jsonrpc = ''2.0'', msg_id = Some (JNum 1), result = None,
           error = Some \<lparr>code = - 32001, message = authentication_required, data = None\<rparr>\<rparr>,
      initial_state)
   \<and> response_code (handleMCPRequest (example_world 1000 (token_reply 200 ''T1'' 3600) Rejected)
        initial_state (tools_call_request (JStr ''pets.lookup'') (JObj []))
        [(''x-petfinder-client-id'', ''id'')]) = Some (- 32601)"
proof -
  have "fst (handleMCPRequest (example_world 1000 (token_reply 200 ''T1'' 3600) Rejected)
          initial_state (tools_call_request (JStr ''pets.get'') (JObj [(''id'', JNum 5)]))
          [(''x-petfinder-client-id'', ''id'')]) =
        Inr \<lparr>jsonrpc = ''2.0'', msg_id = Some (JNum 1), result = None,
             error = Some \<lparr>code = - 32001, message = authentication_required, data = None\<rparr>\<rparr>
      \<and> snd (handleMCPRequest (example_world 1000 (token_reply 200 ''T1'' 3600) Rejected)
          initial_state (tools_call_request (JStr ''pets.get'') (JObj [(''id'', JNum 5)]))
          [(''x-petfinder-client-id'', ''id'')]) = initial_state"
    using tools_call_without_credentials
            [of "tools_call_request (JStr ''pets.get'') (JObj [(''id'', JNum 5)])"
                "[(''x-petfinder-client-id'', ''id'')]"
                "example_world 1000 (token_reply 200 ''T1'' 3600) Rejected" initial_state
                "JObj [(''name'', JStr ''pets.get''), (''arguments'', JObj [(''id'', JNum 5)])]"
                GetPet]
    by (simp add: tools_call_request_def extractCredentialsFromHeaders_def lookup_handler_def
          allTools_get_def allTools_def)
  moreover
  have "response_code (handleMCPRequest (example_world 1000 (token_reply 200 ''T1'' 3600) Rejected)
        initial_state (tools_call_request (JStr ''pets.lookup'') (JObj []))
        [(''x-petfinder-client-id'', ''id'')]) = Some (- 32601)"
    using tools_call_without_credentials
            [of "tools_call_request (JStr ''pets.lookup'') (JObj [])"
                "[(''x-petfinder-client-id'', ''id'')]"
                "example_world 1000 (token_reply 200 ''T1'' 3600) Rejected" initial_state
                "JObj [(''name'', JStr ''pets.lookup''), (''arguments'', JObj [])]"]
    by (simp add: tools_call_request_def extractCredentialsFromHeaders_def lookup_handler_def
          allTools_get_def allTools_def Object_prototype_members_def)
  ultimately show ?thesis by (metis prod.collapse)
qed

lemma tools_call_clears_context:
  assumes "own_prop request ''params'' = Some params" and "params \<noteq> JNull"
    and "lookup_handler (own_prop params ''name'') = Inr (Some h)"
    and "\<not> no_string (map_of hs ''x-petfinder-client-id'')"
    and "\<not> no_string (map_of hs ''x-petfinder-client-secret'')"
  shows "requestContext (snd (tools_call w s request hs)) = empty_context"
  using assms by (simp add: tools_call_params split: sum.splits prod.splits)

text \<open>
  Claim C8. Once the handler of a \<^verbatim>\<open>tools/call\<close> request has been invoked, the request
  context is empty when \<^verbatim>\<open>handleMCPRequest\<close> returns, however the handler ended (result,
  validation error, upstream error or any other exception) and whatever the context held
  before. On every other path the state is not touched, so a context that is empty before a
  request is empty after it, and it is empty after any sequence of HTTP requests served
  from the initial state.
\<close>

theorem request_context_cleared:
  "(own_prop request ''method'' = Some (JStr ''tools/call'')
      \<and> own_prop request ''params'' = Some params \<and> params \<noteq> JNull
      \<and> lookup_handler (own_prop params ''name'') = Inr (Some h)
      \<and> \<not> no_string (fst (extractCredentialsFromHeaders hs))
      \<and> \<not> no_string (snd (extractCredentialsFromHeaders hs)) \<longrightarrow>
     requestContext (snd (handleMCPRequest w s request hs)) = empty_context)
   \<and> (requestContext s = empty_context \<longrightarrow>
        requestContext (snd (handleMCPRequest w s request hs)) = empty_context)
   \<and> (requestContext s = empty_context \<longrightarrow>
        requestContext (snd (serve_fetch w s req)) = empty_context)
   \<and> requestContext (serve_all initial_state rs) = empty_context"
proof (intro conjI impI)
  assume "own_prop request ''method'' = Some (JStr ''tools/call'')
      \<and> own_prop request ''params'' = Some params \<and> params \<noteq> JNull
      \<and> lookup_handler (own_prop params ''name'') = Inr (Some h)
      \<and> \<not> no_string (fst (extractCredentialsFromHeaders hs))
      \<and> \<not> no_string (snd (extractCredentialsFromHeaders hs))"
  then show "requestContext (snd (handleMCPRequest w s request hs)) = empty_context"
    by (simp add: handleMCPRequest_tools_call tools_call_clears_context
          extractCredentialsFromHeaders_def)
next
  assume "requestContext s = empty_context"
  then show "requestContext (snd (handleMCPRequest w s request hs)) = empty_context"
    using handleMCPRequest_context [of w s request hs] by auto
next
  assume "requestContext s = empty_context"
  then show "requestContext (snd (serve_fetch w s req)) = empty_context"
    using serve_fetch_context [of w s req] by auto
next
  show "requestContext (serve_all initial_state rs) = empty_context"
    by (rule serve_all_context) (simp add: initial_state_def)
qed

text \<open>
  Claim C10, as stated, fails for params that are not an object but not \<^verbatim>\<open>null\<close>:
  destructuring the number 5 does not throw, the tool name reads as \<^verbatim>\<open>undefined\<close>, and
  the request is answered with HTTP 200 and the tool-not-found error under its own id.
\<close>

theorem numeric_params_counterexample:
  "handleMCPRequest (world_parsing numeric_params_text numeric_params_body) initial_state
       numeric_params_body example_headers =
     (Inr \<lparr>jsonrpc = ''2.0'', msg_id = Some (JNum 7), result = None,
           error = Some \<lparr>code = - 32601,
                         message = [Lit ''Tool '', ToStr None, Lit '' not found''],
                         data = None\<rparr>\<rparr>, initial_state)
   \<and> process_body (world_parsing numeric_params_text numeric_params_body) initial_state
       example_headers numeric_params_text =
     (\<lparr>http_status = 200,
       http_body = JsonBody
         \<lparr>jsonrpc = ''2.0'', msg_id = Some (JNum 7), result = None,
          error = Some \<lparr>code = - 32601,
                        message = [Lit ''Tool '', ToStr None, Lit '' not found''],
                        data = None\<rparr>\<rparr>\<rparr>, initial_state)"
  by (simp add: process_body_def handleMCPRequest_def tools_call_def get_prop_def
        lookup_handler_def extractCredentialsFromHeaders_def numeric_params_body_def
        world_parsing_def interpolate_def)

lemma request_processing_error_shape:
  assumes "\<forall>st stText body m. e \<noteq> PetfinderAPIError st stText body m"
  shows "request_processing_error w e =
     \<lparr>http_status = 400,
      http_body = JsonBody
        \<lparr>jsonrpc = ''2.0'', msg_id = Some (JStr ''unknown''), result = None,
         error = Some \<lparr>code = - 32700, message = error_message e, data = None\<rparr>\<rparr>\<rparr>"
  using assms by (cases e) (auto simp: request_processing_error_def createErrorResponse_def)

text \<open>
  Claim C10, amended. For every \<^verbatim>\<open>tools/call\<close> request whose params are absent or
  \<^verbatim>\<open>null\<close>, \<^verbatim>\<open>handleMCPRequest\<close> throws while destructuring params, and the catch block
  of the transport answers with HTTP status 400 and a parse-error envelope with code
  -32700 and the id \<^verbatim>\<open>unknown\<close>, in place of the request's own id. For params of any
  other value without a property \<^verbatim>\<open>name\<close> (a number, a string, a boolean among them)
  nothing is thrown: the response is the tool-not-found error, code -32601, under the
  request's own id.
\<close>

theorem missing_params_parse_error:
  assumes "json_parse w txt = Some request"
    and "own_prop request ''method'' = Some (JStr ''tools/call'')"
  shows
    "(own_prop request ''params'' = None \<or> own_prop request ''params'' = Some JNull \<longrightarrow>
        handleMCPRequest w s request hs =
          (Inl (TypeError ''Right side of assignment cannot be destructured''), s)
        \<and> (\<exists>m. process_body w s hs txt =
              (\<lparr>http_status = 400,
                http_body = JsonBody
                  \<lparr>jsonrpc = ''2.0'', msg_id = Some (JStr ''unknown''), result = None,
                   error = Some \<lparr>code = - 32700, message = m, data = None\<rparr>\<rparr>\<rparr>, s)))
     \<and> (own_prop request ''params'' = Some params \<and> params \<noteq> JNull
          \<and> own_prop params ''name'' = None \<longrightarrow>
        handleMCPRequest w s request hs =
          (Inr \<lparr>jsonrpc = ''2.0'', msg_id = own_prop request ''id'', result = None,
                error = Some \<lparr>code = - 32601,
                              message = [Lit ''Tool '', ToStr None, Lit '' not found''],
                              data = None\<rparr>\<rparr>, s))"
proof (intro conjI impI)
  assume absent: "own_prop request ''params'' = None \<or> own_prop request ''params'' = Some JNull"
  then show thrown: "handleMCPRequest w s request hs =
          (Inl (TypeError ''Right side of assignment cannot be destructured''), s)"
    using assms(2) by (simp add: handleMCPRequest_tools_call tools_call_no_params)
  from assms(2) obtain kvs where obj: "request = JObj kvs" by (cases request) simp_all
  have reads: "get_prop (Some request) ''method'' = Inr (Some (JStr ''tools/call''))"
    using assms(2) obj by (simp add: get_prop_def)
  have shown: "interpolate (Some (JStr ''tools/call'')) = Inr (ToStr (Some (JStr ''tools/call'')))"
    by (simp add: interpolate_def)
  show "\<exists>m. process_body w s hs txt =
              (\<lparr>http_status = 400,
                http_body = JsonBody
                  \<lparr>jsonrpc = ''2.0'', msg_id = Some (JStr ''unknown''), result = None,
                   error = Some \<lparr>code = - 32700, message = m, data = None\<rparr>\<rparr>\<rparr>, s)"
  proof (cases "interpolate (own_prop request ''id'')")
    case (Inl e)
    then have "e = cannot_convert"
      by (auto simp: interpolate_def split: option.splits if_splits)
    then have "request_processing_error w e =
       \<lparr>http_status = 400,
        http_body = JsonBody
          \<lparr>jsonrpc = ''2.0'', msg_id = Some (JStr ''unknown''), result = None,
           error = Some \<lparr>code = - 32700, message = error_message e, data = None\<rparr>\<rparr>\<rparr>"
      by (intro request_processing_error_shape) (simp add: cannot_convert_def)
    then show ?thesis
      using assms(1) reads shown Inl by (simp add: process_body_def)
  next
    case (Inr t)
    have "request_processing_error w (TypeError ''Right side of assignment cannot be destructured'') =
       \<lparr>http_status = 400,
        http_body = JsonBody
          \<lparr>jsonrpc = ''2.0'', msg_id = Some (JStr ''unknown''), result = None,
           error = Some \<lparr>code = - 32700,
                         message = error_message
                           (TypeError ''Right side of assignment cannot be destructured''),
                         data = None\<rparr>\<rparr>\<rparr>"
      by (intro request_processing_error_shape) simp
    then show ?thesis
      using assms(1) reads shown Inr thrown by (simp add: process_body_def)
  qed
next
  assume "own_prop request ''params'' = Some params \<and> params \<noteq> JNull
          \<and> own_prop params ''name'' = None"
  then show "handleMCPRequest w s request hs =
          (Inr \<lparr>jsonrpc = ''2.0'', msg_id = own_prop request ''id'', result = None,
                error = Some \<lparr>code = - 32601,
                              message = [Lit ''Tool '', ToStr None, Lit '' not found''],
                              data = None\<rparr>\<rparr>, s)"
    using assms(2)
    by (simp add: handleMCPRequest_tools_call tools_call_params lookup_handler_def
          interpolate_def)
qed

theorem missing_params_parse_error_witness:
  "handleMCPRequest (world_parsing no_params_text no_params_body) initial_state no_params_body
       example_headers =
     (Inl (TypeError ''Right side of assignment cannot be destructured''), initial_state)
   \<and> (\<exists>m. process_body (world_parsing no_params_text no_params_body) initial_state
             example_headers no_params_text =
           (\<lparr>http_status = 400,
             http_body = JsonBody
               \<lparr>jsonrpc = ''2.0'', msg_id = Some (JStr ''unknown''), result = None,
                error = Some \<lparr>code = - 32700, message = m, data = None\<rparr>\<rparr>\<rparr>, initial_state))
   \<and> handleMCPRequest (world_parsing numeric_params_text numeric_params_body) initial_state
        numeric_params_body example_headers =
     (Inr \<lparr>jsonrpc = ''2.0'', msg_id = Some (JNum 7), result = None,
           error = Some \<lparr>code = - 32601,
                         message = [Lit ''Tool '', ToStr None, Lit '' not found''],
                         data = None\<rparr>\<rparr>, initial_state)"
  using missing_params_parse_error
          [of "world_parsing no_params_text no_params_body" no_params_text no_params_body
              initial_state example_headers]
        missing_params_parse_error
          [of "world_parsing numeric_params_text numeric_params_body" numeric_params_text
              numeric_params_body initial_state example_headers "JNum 5"]
  by (simp add: world_parsing_def no_params_body_def numeric_params_body_def)

theorem request_context_cleared_witness:
  "requestContext (snd (handleMCPRequest
       (example_world 1000 (token_reply 200 ''T1'' 3600) (api_reply 200 (JObj [])))
       occupied_state (tools_call_request (JStr ''pets.get'') (JObj [(''id'', JNum 5)]))
       example_headers)) = empty_context
   \<and> requestContext (snd (handleMCPRequest
       (example_world 1000 (token_reply 200 ''T1'' 3600) (api_reply 200 (JObj [])))
       occupied_state (tools_call_request (JStr ''pets.search'') (JObj [(''limit'', JNum 0)]))
       example_headers)) = empty_context
   \<and> requestContext (snd (handleMCPRequest
       (example_world 1000 (token_reply 200 ''T1'' 3600) (api_reply 500 (JObj [])))
       occupied_state (tools_call_request (JStr ''pets.get'') (JObj [(''id'', JNum 5)]))
       example_headers)) = empty_context
   \<and> requestContext (snd (handleMCPRequest
       (example_world 1000 (token_reply 200 ''T1'' 3600) (api_reply 200 (JObj [])))
       initial_state tools_list_request example_headers)) = empty_context"
proof -
  have get: "lookup_handler (own_prop (JObj [(''name'', JStr ''pets.get''),
                (''arguments'', JObj [(''id'', JNum 5)])]) ''name'') = Inr (Some GetPet)"
    by (simp add: lookup_handler_def allTools_get_def allTools_def)
  have search: "lookup_handler (own_prop (JObj [(''name'', JStr ''pets.search''),
                (''arguments'', JObj [(''limit'', JNum 0)])]) ''name'') = Inr (Some SearchPets)"
    by (simp add: lookup_handler_def allTools_get_def allTools_def)
  have creds: "\<not> no_string (fst (extractCredentialsFromHeaders example_headers))
      \<and> \<not> no_string (snd (extractCredentialsFromHeaders example_headers))"
    by (simp add: extractCredentialsFromHeaders_def example_headers_def)
  have a: "requestContext (snd (handleMCPRequest
       (example_world 1000 (token_reply 200 ''T1'' 3600) (api_reply 200 (JObj [])))
       occupied_state (tools_call_request (JStr ''pets.get'') (JObj [(''id'', JNum 5)]))
       example_headers)) = empty_context"
    using get creds
      request_context_cleared
        [where request = "tools_call_request (JStr ''pets.get'') (JObj [(''id'', JNum 5)])"
           and params = "JObj [(''name'', JStr ''pets.get''),
                               (''arguments'', JObj [(''id'', JNum 5)])]"
           and h = GetPet and hs = example_headers and s = occupied_state
           and w = "example_world 1000 (token_reply 200 ''T1'' 3600) (api_reply 200 (JObj []))"]
    by (simp add: tools_call_request_def)
  have b: "requestContext (snd (handleMCPRequest
       (example_world 1000 (token_reply 200 ''T1'' 3600) (api_reply 200 (JObj [])))
       occupied_state (tools_call_request (JStr ''pets.search'') (JObj [(''limit'', JNum 0)]))
       example_headers)) = empty_context"
    using search creds
      request_context_cleared
        [where request = "tools_call_request (JStr ''pets.search'') (JObj [(''limit'', JNum 0)])"
           and params = "JObj [(''name'', JStr ''pets.search''),
                               (''arguments'', JObj [(''limit'', JNum 0)])]"
           and h = SearchPets and hs = example_headers and s = occupied_state
           and w = "example_world 1000 (token_reply 200 ''T1'' 3600) (api_reply 200 (JObj []))"]
    by (simp add: tools_call_request_def)
  have c: "requestContext (snd (handleMCPRequest
       (example_world 1000 (token_reply 200 ''T1'' 3600) (api_reply 500 (JObj [])))
       occupied_state (tools_call_request (JStr ''pets.get'') (JObj [(''id'', JNum 5)]))
       example_headers)) = empty_context"
    using get creds
      request_context_cleared
        [where request = "tools_call_request (JStr ''pets.get'') (JObj [(''id'', JNum 5)])"
           and params = "JObj [(''name'', JStr ''pets.get''),
                               (''arguments'', JObj [(''id'', JNum 5)])]"
           and h = GetPet and hs = example_headers and s = occupied_state
           and w = "example_world 1000 (token_reply 200 ''T1'' 3600) (api_reply 500 (JObj []))"]
    by (simp add: tools_call_request_def)
  have d: "requestContext (snd (handleMCPRequest
       (example_world 1000 (token_reply 200 ''T1'' 3600) (api_reply 200 (JObj [])))
       initial_state tools_list_request example_headers)) = empty_context"
    using request_context_cleared
        [where request = tools_list_request and hs = example_headers and s = initial_state
           and w = "example_world 1000 (token_reply 200 ''T1'' 3600) (api_reply 200 (JObj []))"]
    by (simp add: initial_state_def)
  from a b c d show ?thesis by blast
qed

text \<open>
  The three ways a handler can end, each from a state whose context is occupied: a result,
  a validation error raised before any network call, and an upstream error. The context is
  empty after each.
\<close>

lemma exit_paths_clear_context:
  "handleMCPRequest
       (example_world 1000 (token_reply 200 ''T1'' 3600) (api_reply 200 (JObj [])))
       occupied_state (tools_call_request (JStr ''pets.get'') (JObj [(''id'', JNum 5)]))
       example_headers =
     (Inr \<lparr>jsonrpc = ''2.0'', msg_id = Some (JNum 1),
           result = Some (ToolContent
             [TextBlock [Lit ''Pet details for ID '', ToStr (Some (JNum 5)), Lit '':''],
              TextBlock [Stringify (JObj [])]]),
           error = None\<rparr>,
      \<lparr>tokenCache = [''id'' \<mapsto> cached ''T1'' 4600],
       requestContext = empty_context,
       fetches = [TokenFetch ''id'' ''secret'',
                  ApiFetch (Url [Lit PETFINDER_BASE, Lit ''/animals/'', ToStr (Some (JNum 5)),
                                 Lit []] []) (Some (JStr ''T1''))]\<rparr>)"
  "handleMCPRequest
       (example_world 1000 (token_reply 200 ''T1'' 3600) (api_reply 200 (JObj [])))
       occupied_state (tools_call_request (JStr ''pets.search'') (JObj [(''limit'', JNum 0)]))
       example_headers =
     (Inr \<lparr>jsonrpc = ''2.0'', msg_id = Some (JNum 1), result = None,
           error = Some \<lparr>code = - 32603,
                         message = [IssuesJson [Issue [Key ''limit''] ''too_small'']],
                         data = None\<rparr>\<rparr>,
      \<lparr>tokenCache = Map.empty, requestContext = empty_context, fetches = []\<rparr>)"
  "handleMCPRequest
       (example_world 1000 (token_reply 200 ''T1'' 3600) (api_reply 500 (JObj [])))
       occupied_state (tools_call_request (JStr ''pets.get'') (JObj [(''id'', JNum 5)]))
       example_headers =
     (Inr \<lparr>jsonrpc = ''2.0'', msg_id = Some (JNum 1), result = None,
           error = Some \<lparr>code = - 32603, message = [Lit ''Internal server error''],
                         data = Some [(''status'', DNumber 500), (''title'', DString ''Error''),
                                      (''detail'', DTemplate
                                         [Lit ''Petfinder API error ('', ToStr (Some (JNum 500)),
                                          Lit ''): '', Lit ''{}''])]\<rparr>\<rparr>,
      \<lparr>tokenCache = [''id'' \<mapsto> cached ''T1'' 4600],
       requestContext = empty_context,
       fetches = [TokenFetch ''id'' ''secret'',
                  ApiFetch (Url [Lit PETFINDER_BASE, Lit ''/animals/'', ToStr (Some (JNum 5)),
                                 Lit []] []) (Some (JStr ''T1''))]\<rparr>)"
  by (simp_all add: handleMCPRequest_def tools_call_def get_prop_def lookup_handler_def
        allTools_get_def allTools_def extractCredentialsFromHeaders_def
        tools_call_request_def example_headers_def interpolate_def
        initial_state_def occupied_state_def getPet_def getAnimal_def request_by_def
        petfinderRequest_def getAccessToken_def requestNewToken_def cache_new_token_def
        js_plus_def to_number_def cached_def example_world_def
        token_reply_def api_reply_def ok_def detail_blocks_def cleanupExpiredTokens_def Let_def
        searchPets_def zparse_object_def animalSearchSchema_def spread_def fun_eq_iff
        createErrorResponse_def mapHTTPStatusToJSONRPCError_def getErrorMessage_def
        problem_details_def)

lemma createErrorResponse_api_error_code:
  "map_option code (error (createErrorResponse w ident (PetfinderAPIError st stText body m) fb)) =
     Some (mapHTTPStatusToJSONRPCError st)"
  by (simp add: createErrorResponse_def)

lemma getAccessToken_endpoint_error:
  assumes "clientId \<noteq> []" and "clientSecret \<noteq> []" and "tokenCache s clientId = None"
    and "oauth w clientId clientSecret = Resolved r" and "\<not> ok r"
  shows "\<exists>body m s'. getAccessToken w s (Some clientId) (Some clientSecret) =
           (Inl (PetfinderAPIError (status r) (statusText r) body m), s')"
  using assms
  by (simp add: getAccessToken_def requestNewToken_def cleanupExpiredTokens_def Let_def)

lemma searchPets_token_endpoint_error:
  assumes "ctx_clientId (requestContext s) = Some clientId" and "clientId \<noteq> []"
    and "ctx_clientSecret (requestContext s) = Some clientSecret" and "clientSecret \<noteq> []"
    and "tokenCache s clientId = None"
    and "oauth w clientId clientSecret = Resolved r" and "\<not> ok r"
    and "zparse_object animalSearchSchema
           (spread [(''status'', JStr ''adoptable''), (''sort'', JStr ''recent''),
                    (''page'', JNum 1), (''limit'', JNum 20)] args) = Inr v"
  shows "\<exists>body m s'. searchPets w s args =
           (Inl (PetfinderAPIError (status r) (statusText r) body m), s')"
proof -
  from getAccessToken_endpoint_error [OF assms(2) assms(4) assms(5) assms(6) assms(7)]
  obtain body m s' where "getAccessToken w s (Some clientId) (Some clientSecret) =
           (Inl (PetfinderAPIError (status r) (statusText r) body m), s')"
    by blast
  then show ?thesis
    using assms(1-4,8)
    by (simp add: searchPets_def searchAnimals_def petfinderRequest_def Let_def)
qed

lemma searchPets_api_error:
  assumes "ctx_clientId (requestContext s) = Some clientId" and "clientId \<noteq> []"
    and "ctx_clientSecret (requestContext s) = Some clientSecret" and "clientSecret \<noteq> []"
    and "zparse_object animalSearchSchema
           (spread [(''status'', JStr ''adoptable''), (''sort'', JStr ''recent''),
                    (''page'', JNum 1), (''limit'', JNum 20)] args) = Inr v"
    and "searchParams v = Inr q"
    and "getAccessToken w s (Some clientId) (Some clientSecret) = (Inr (Some (JStr token)), s1)"
    and "api w (Url [Lit PETFINDER_BASE, Lit ''/animals''] q) (Some (JStr token)) = Resolved r"
    and "\<not> ok r"
  shows "\<exists>body m s'. searchPets w s args =
           (Inl (PetfinderAPIError (status r) (statusText r) body m), s')"
  using assms
  by (simp add: searchPets_def searchAnimals_def petfinderRequest_def interpolate_def Let_def)

lemma pets_search_call:
  assumes "map_of hs ''x-petfinder-client-id'' = Some clientId" and "clientId \<noteq> []"
    and "map_of hs ''x-petfinder-client-secret'' = Some clientSecret" and "clientSecret \<noteq> []"
    and "searchPets w (s\<lparr>requestContext := \<lparr>ctx_clientId = Some clientId,
                                           ctx_clientSecret = Some clientSecret\<rparr>\<rparr>) (Some args) =
           (Inl (PetfinderAPIError st stText body m), s')"
  shows "response_code (handleMCPRequest w s (tools_call_request (JStr ''pets.search'') args) hs) =
           Some (mapHTTPStatusToJSONRPCError st)"
proof -
  let ?request = "tools_call_request (JStr ''pets.search'') args"
  let ?params = "JObj [(''name'', JStr ''pets.search''), (''arguments'', args)]"
  have is_call: "own_prop ?request ''method'' = Some (JStr ''tools/call'')"
    by (simp add: tools_call_request_def)
  have params: "own_prop ?request ''params'' = Some ?params" "?params \<noteq> JNull"
    by (simp_all add: tools_call_request_def)
  have found: "lookup_handler (own_prop ?params ''name'') = Inr (Some SearchPets)"
    by (simp add: lookup_handler_def allTools_get_def allTools_def)
  show ?thesis
    using assms found
    by (simp add: handleMCPRequest_tools_call [OF is_call] tools_call_params [OF params]
          response_code_def createErrorResponse_def)
qed

text \<open>
  Claim C6. An upstream HTTP failure status becomes the protocol error code
  400 -> -32602, 401 -> -32001, 403 -> -32002, 404 -> -32003, 429 -> -32004, and -32603 for
  every other status; that is the code of the error envelope built from the upstream error.
  In a \<^verbatim>\<open>pets.search\<close> call with credentials and valid arguments, a failure status of the
  token endpoint (no token cached for the client) and a failure status of the animal-search
  endpoint both reach the response as that code: 401 gives -32001 and 429 gives -32004.
\<close>

theorem upstream_status_to_error_code:
  "mapHTTPStatusToJSONRPCError st =
     (if st = 400 then - 32602 else if st = 401 then - 32001 else if st = 403 then - 32002
      else if st = 404 then - 32003 else if st = 429 then - 32004 else - 32603)
   \<and> map_option code (error (createErrorResponse w ident (PetfinderAPIError st stText body m) fb)) =
       Some (mapHTTPStatusToJSONRPCError st)
   \<and> (map_of hs ''x-petfinder-client-id'' = Some clientId \<and> clientId \<noteq> []
        \<and> map_of hs ''x-petfinder-client-secret'' = Some clientSecret \<and> clientSecret \<noteq> []
        \<and> zparse_object animalSearchSchema
             (spread [(''status'', JStr ''adoptable''), (''sort'', JStr ''recent''),
                      (''page'', JNum 1), (''limit'', JNum 20)] (Some args)) = Inr v
        \<and> tokenCache s clientId = None
        \<and> oauth w clientId clientSecret = Resolved r \<and> \<not> ok r \<longrightarrow>
      response_code (handleMCPRequest w s (tools_call_request (JStr ''pets.search'') args) hs) =
        Some (mapHTTPStatusToJSONRPCError (status r)))
   \<and> (map_of hs ''x-petfinder-client-id'' = Some clientId \<and> clientId \<noteq> []
        \<and> map_of hs ''x-petfinder-client-secret'' = Some clientSecret \<and> clientSecret \<noteq> []
        \<and> zparse_object animalSearchSchema
             (spread [(''status'', JStr ''adoptable''), (''sort'', JStr ''recent''),
                      (''page'', JNum 1), (''limit'', JNum 20)] (Some args)) = Inr v
        \<and> searchParams v = Inr q
        \<and> getAccessToken w (s\<lparr>requestContext := \<lparr>ctx_clientId = Some clientId,
                                                  ctx_clientSecret = Some clientSecret\<rparr>\<rparr>)
             (Some clientId) (Some clientSecret) = (Inr (Some (JStr token)), s1)
        \<and> api w (Url [Lit PETFINDER_BASE, Lit ''/animals''] q) (Some (JStr token)) = Resolved r'
        \<and> \<not> ok r' \<longrightarrow>
      response_code (handleMCPRequest w s (tools_call_request (JStr ''pets.search'') args) hs) =
        Some (mapHTTPStatusToJSONRPCError (status r')))"
proof (intro conjI impI)
  show "mapHTTPStatusToJSONRPCError st =
     (if st = 400 then - 32602 else if st = 401 then - 32001 else if st = 403 then - 32002
      else if st = 404 then - 32003 else if st = 429 then - 32004 else - 32603)"
    by (simp add: mapHTTPStatusToJSONRPCError_def)
next
  show "map_option code (error (createErrorResponse w ident (PetfinderAPIError st stText body m) fb)) =
       Some (mapHTTPStatusToJSONRPCError st)"
    by (rule createErrorResponse_api_error_code)
next
  assume a: "map_of hs ''x-petfinder-client-id'' = Some clientId \<and> clientId \<noteq> []
        \<and> map_of hs ''x-petfinder-client-secret'' = Some clientSecret \<and> clientSecret \<noteq> []
        \<and> zparse_object animalSearchSchema
             (spread [(''status'', JStr ''adoptable''), (''sort'', JStr ''recent''),
                      (''page'', JNum 1), (''limit'', JNum 20)] (Some args)) = Inr v
        \<and> tokenCache s clientId = None
        \<and> oauth w clientId clientSecret = Resolved r \<and> \<not> ok r"
  let ?s = "s\<lparr>requestContext := \<lparr>ctx_clientId = Some clientId,
                                  ctx_clientSecret = Some clientSecret\<rparr>\<rparr>"
  from a have "\<exists>body m s'. searchPets w ?s (Some args) =
           (Inl (PetfinderAPIError (status r) (statusText r) body m), s')"
    by (intro searchPets_token_endpoint_error [where clientId = clientId
          and clientSecret = clientSecret and v = v]) simp_all
  then obtain body' m' s' where "searchPets w ?s (Some args) =
           (Inl (PetfinderAPIError (status r) (statusText r) body' m'), s')"
    by blast
  with a show "response_code (handleMCPRequest w s
        (tools_call_request (JStr ''pets.search'') args) hs) =
        Some (mapHTTPStatusToJSONRPCError (status r))"
    by (intro pets_search_call [where clientId = clientId and clientSecret = clientSecret]) simp_all
next
  assume a: "map_of hs ''x-petfinder-client-id'' = Some clientId \<and> clientId \<noteq> []
        \<and> map_of hs ''x-petfinder-client-secret'' = Some clientSecret \<and> clientSecret \<noteq> []
        \<and> zparse_object animalSearchSchema
             (spread [(''status'', JStr ''adoptable''), (''sort'', JStr ''recent''),
                      (''page'', JNum 1), (''limit'', JNum 20)] (Some args)) = Inr v
        \<and> searchParams v = Inr q
        \<and> getAccessToken w (s\<lparr>requestContext := \<lparr>ctx_clientId = Some clientId,
                                                  ctx_clientSecret = Some clientSecret\<rparr>\<rparr>)
             (Some clientId) (Some clientSecret) = (Inr (Some (JStr token)), s1)
        \<and> api w (Url [Lit PETFINDER_BASE, Lit ''/animals''] q) (Some (JStr token)) = Resolved r'
        \<and> \<not> ok r'"
  let ?s = "s\<lparr>requestContext := \<lparr>ctx_clientId = Some clientId,
                                  ctx_clientSecret = Some clientSecret\<rparr>\<rparr>"
  from a have "\<exists>body m s'. searchPets w ?s (Some args) =
           (Inl (PetfinderAPIError (status r') (statusText r') body m), s')"
    by (intro searchPets_api_error [where clientId = clientId
          and clientSecret = clientSecret and v = v and q = q and token = token and ?s1.0 = s1])
       simp_all
  then obtain body' m' s' where "searchPets w ?s (Some args) =
           (Inl (PetfinderAPIError (status r') (statusText r') body' m'), s')"
    by blast
  with a show "response_code (handleMCPRequest w s
        (tools_call_request (JStr ''pets.search'') args) hs) =
        Some (mapHTTPStatusToJSONRPCError (status r'))"
    by (intro pets_search_call [where clientId = clientId and clientSecret = clientSecret]) simp_all
qed

theorem upstream_status_to_error_code_witness:
  "response_code (handleMCPRequest (example_world 1000 (token_reply 401 [] 0) Rejected)
       initial_state
       (tools_call_request (JStr ''pets.search'') (JObj [(''type'', JStr ''dog'')]))
       example_headers) = Some (- 32001)
   \<and> response_code (handleMCPRequest
         (example_world 1000 (token_reply 200 ''T1'' 3600) (api_reply 429 (JObj [])))
         initial_state
         (tools_call_request (JStr ''pets.search'') (JObj [(''type'', JStr ''dog'')]))
         example_headers) = Some (- 32004)
   \<and> mapHTTPStatusToJSONRPCError 503 = - 32603
   \<and> mapHTTPStatusToJSONRPCError 418 = - 32603"
proof -
  let ?args = "JObj [(''type'', JStr ''dog'')]"
  let ?v = "[(''type'', JStr ''dog''), (''status'', JStr ''adoptable''),
             (''sort'', JStr ''recent''), (''page'', JNum 1), (''limit'', JNum 20)]"
  let ?q = "[(''type'', ToStr (Some (JStr ''dog''))),
             (''status'', ToStr (Some (JStr ''adoptable''))),
             (''sort'', ToStr (Some (JStr ''recent''))),
             (''page'', ToStr (Some (JNum 1))), (''limit'', ToStr (Some (JNum 20)))]"
  let ?w1 = "example_world 1000 (token_reply 401 [] 0) Rejected"
  let ?w2 = "example_world 1000 (token_reply 200 ''T1'' 3600) (api_reply 429 (JObj []))"
  let ?s = "initial_state\<lparr>requestContext := \<lparr>ctx_clientId = Some ''id'',
                                              ctx_clientSecret = Some ''secret''\<rparr>\<rparr>"
  let ?r1 = "\<lparr>status = 401, statusText = ''Error'', body_text = ''{}'',
             json_result = Some (JObj [(''token_type'', JStr ''Bearer''),
                                       (''expires_in'', JNum 0), (''access_token'', JStr [])])\<rparr>"
  let ?r2 = "\<lparr>status = 429, statusText = ''Error'', body_text = ''{}'',
             json_result = Some (JObj [])\<rparr>"
  have valid: "zparse_object animalSearchSchema
             (spread [(''status'', JStr ''adoptable''), (''sort'', JStr ''recent''),
                      (''page'', JNum 1), (''limit'', JNum 20)] (Some ?args)) = Inr ?v"
    by (simp add: zparse_object_def animalSearchSchema_def spread_def)
  have query: "searchParams ?v = Inr ?q"
    by (simp add: append_entry_def call_toString_def)
  have headers: "map_of example_headers ''x-petfinder-client-id'' = Some ''id''
      \<and> map_of example_headers ''x-petfinder-client-secret'' = Some ''secret''"
    by (simp add: example_headers_def)
  have token: "getAccessToken ?w2 ?s (Some ''id'') (Some ''secret'') =
      (Inr (Some (JStr ''T1'')), snd (getAccessToken ?w2 ?s (Some ''id'') (Some ''secret'')))"
    by (simp add: getAccessToken_def requestNewToken_def cache_new_token_def get_prop_def
          js_plus_def interpolate_def cleanupExpiredTokens_def
          example_world_def token_reply_def initial_state_def ok_def)
  have a: "response_code (handleMCPRequest ?w1 initial_state
       (tools_call_request (JStr ''pets.search'') ?args) example_headers) = Some (- 32001)"
    using valid headers
      upstream_status_to_error_code
        [where hs = example_headers and clientId = "''id''" and clientSecret = "''secret''"
           and args = ?args and v = ?v and s = initial_state and w = ?w1 and r = ?r1
           and st = 401]
    by (simp add: example_world_def token_reply_def initial_state_def ok_def)
  have b: "response_code (handleMCPRequest ?w2 initial_state
       (tools_call_request (JStr ''pets.search'') ?args) example_headers) = Some (- 32004)"
    using valid headers query token
      upstream_status_to_error_code
        [where hs = example_headers and clientId = "''id''" and clientSecret = "''secret''"
           and args = ?args and v = ?v and q = ?q and s = initial_state and w = ?w2
           and token = "''T1''"
           and ?s1.0 = "snd (getAccessToken ?w2 ?s (Some ''id'') (Some ''secret''))"
           and r' = ?r2 and st = 429]
    by (simp add: example_world_def api_reply_def ok_def)
  have c: "mapHTTPStatusToJSONRPCError 503 = - 32603 \<and> mapHTTPStatusToJSONRPCError 418 = - 32603"
    using upstream_status_to_error_code [where st = 503]
          upstream_status_to_error_code [where st = 418]
    by simp
  from a b c show ?thesis by blast
qed

section \<open>Validation and the shape of results\<close>

lemma searchPets_validation_error:
  "zparse_object animalSearchSchema
     (spread [(''status'', JStr ''adoptable''), (''sort'', JStr ''recent''),
              (''page'', JNum 1), (''limit'', JNum 20)] input) = Inl issues \<Longrightarrow>
   searchPets w s input = (Inl (ZodError issues), s)"
  by (simp add: searchPets_def)

lemma searchOrgs_validation_error:
  "zparse_object organizationSearchSchema
     (spread [(''page'', JNum 1), (''limit'', JNum 20)] input) = Inl issues \<Longrightarrow>
   searchOrgs w s input = (Inl (ZodError issues), s)"
  by (simp add: searchOrgs_def)

lemma append_all_no_ZodError: "append_all key vs \<noteq> Inl (ZodError issues)"
  by (induction vs)
     (auto simp: call_toString_def cannot_convert_def split: sum.splits if_splits)

lemma searchParams_no_ZodError: "searchParams es \<noteq> Inl (ZodError issues)"
proof (induction es)
  case Nil
  then show ?case by simp
next
  case (Cons a es)
  obtain key v where a: "a = (key, v)" by (cases a)
  have "append_entry key v \<noteq> Inl (ZodError issues)"
    using append_all_no_ZodError [of key _ issues]
    by (cases v)
       (auto simp: append_entry_def call_toString_def cannot_convert_def
             split: sum.splits if_splits)
  with Cons a show ?case by (auto split: sum.splits)
qed

lemma getAccessToken_no_ZodError:
  "fst (getAccessToken w s clientId clientSecret) \<noteq> Inl (ZodError issues)"
  by (auto simp: getAccessToken_def requestNewToken_def cache_new_token_def get_prop_def
             js_plus_def interpolate_def cannot_convert_def missing_credentials_def Let_def
           split: option.splits promise.splits if_splits sum.splits json.splits)

lemma petfinderRequest_no_ZodError:
  "fst (petfinderRequest w s endpoint params) \<noteq> Inl (ZodError issues)"
proof -
  have "searchParams (case params of None \<Rightarrow> [] | Some es \<Rightarrow> es) \<noteq> Inl (ZodError issues)"
    by (rule searchParams_no_ZodError)
  then show ?thesis
    using getAccessToken_no_ZodError
            [of w s "ctx_clientId (requestContext s)" "ctx_clientSecret (requestContext s)" issues]
    by (auto simp: petfinderRequest_def interpolate_def cannot_convert_def Let_def
             split: prod.splits sum.splits promise.splits option.splits if_splits)
qed

lemma request_by_no_ZodError:
  "fst (request_by w s before k after params) \<noteq> Inl (ZodError issues)"
  using petfinderRequest_no_ZodError
  by (auto simp: request_by_def get_prop_def interpolate_def cannot_convert_def
           split: sum.splits option.splits json.splits if_splits)

lemma detail_blocks_no_ZodError:
  "detail_blocks input k before payload \<noteq> Inl (ZodError issues)"
  by (auto simp: detail_blocks_def get_prop_def interpolate_def cannot_convert_def
           split: sum.splits option.splits json.splits if_splits)

text \<open>
  The five tools that look up by id or type, or list the types, never fail with a
  validation error: their handlers do not parse the input against a schema.
\<close>

lemma lookup_tools_never_validate:
  assumes "h = GetPet \<or> h = GetOrg \<or> h = ListAnimalTypes \<or> h = GetAnimalTypeDetails
           \<or> h = ListAnimalBreeds"
  shows "fst (call_handler w s h args) \<noteq> Inl (ZodError issues)"
proof -
  have a: "fst (getPet w s args) \<noteq> Inl (ZodError issues)"
    using request_by_no_ZodError [of w s "''/animals/''" "''id''" "[]" args issues]
          detail_blocks_no_ZodError
    by (auto simp: getPet_def getAnimal_def split: prod.splits sum.splits)
  have b: "fst (getOrg w s args) \<noteq> Inl (ZodError issues)"
    using request_by_no_ZodError [of w s "''/organizations/''" "''id''" "[]" args issues]
          detail_blocks_no_ZodError
    by (auto simp: getOrg_def getOrganization_def split: prod.splits sum.splits)
  have c: "fst (listAnimalTypes w s) \<noteq> Inl (ZodError issues)"
    using petfinderRequest_no_ZodError [of w s "[Lit ''/types'']" None issues]
    by (auto simp: listAnimalTypes_def getAnimalTypes_def split: prod.splits sum.splits)
  have d: "fst (getAnimalTypeDetails w s args) \<noteq> Inl (ZodError issues)"
    using request_by_no_ZodError [of w s "''/types/''" "''type''" "[]" args issues]
          detail_blocks_no_ZodError
    by (auto simp: getAnimalTypeDetails_def getAnimalType_def split: prod.splits sum.splits)
  have e: "fst (listAnimalBreeds w s args) \<noteq> Inl (ZodError issues)"
    using request_by_no_ZodError [of w s "''/types/''" "''type''" "''/breeds''" args issues]
          detail_blocks_no_ZodError
    by (auto simp: listAnimalBreeds_def getAnimalBreeds_def split: prod.splits sum.splits)
  from assms a b c d e show ?thesis by auto
qed

text \<open>
  Claim C1 does not hold of the code. The handler of \<^verbatim>\<open>pets.get\<close> receives the raw
  arguments and never parses them against \<^verbatim>\<open>animalGetSchema\<close>: the arguments
  \<^verbatim>\<open>{"id": "abc"}\<close>, which the schema rejects with a diagnostic for the field \<^verbatim>\<open>id\<close>,
  reach the token endpoint and the API (\<^verbatim>\<open>GET /animals/abc\<close>), and the call succeeds.
\<close>

theorem pets_get_skips_validation:
  "zparse_object animalGetSchema (own_entries (Some (JObj [(''id'', JStr ''abc'')]))) =
     Inl [Issue [Key ''id''] ''invalid_type'']
   \<and> handleMCPRequest
       (example_world 1000 (token_reply 200 ''T1'' 3600) (api_reply 200 (JObj [(''animal'', JNull)])))
       initial_state (tools_call_request (JStr ''pets.get'') (JObj [(''id'', JStr ''abc'')]))
       example_headers =
     (Inr \<lparr>jsonrpc = ''2.0'', msg_id = Some (JNum 1),
           result = Some (ToolContent
             [TextBlock [Lit ''Pet details for ID '', ToStr (Some (JStr ''abc'')), Lit '':''],
              TextBlock [Stringify (JObj [(''animal'', JNull)])]]),
           error = None\<rparr>,
      initial_state\<lparr>tokenCache := [''id'' \<mapsto> cached ''T1'' 4600],
        fetches := [TokenFetch ''id'' ''secret'',
                    ApiFetch (Url [Lit PETFINDER_BASE, Lit ''/animals/'',
                                   ToStr (Some (JStr ''abc'')), Lit []] [])
                      (Some (JStr ''T1''))]\<rparr>)"
  by (simp add: zparse_object_def animalGetSchema_def
        handleMCPRequest_def tools_call_def get_prop_def lookup_handler_def
        allTools_get_def allTools_def extractCredentialsFromHeaders_def
        tools_call_request_def example_headers_def interpolate_def
        empty_context_def initial_state_def getPet_def getAnimal_def request_by_def
        petfinderRequest_def getAccessToken_def requestNewToken_def cache_new_token_def
        js_plus_def to_number_def cached_def example_world_def
        token_reply_def api_reply_def ok_def detail_blocks_def cleanupExpiredTokens_def Let_def
        fun_eq_iff)

lemma createErrorResponse_error_only:
  "result (createErrorResponse w ident e fb) = None
   \<and> error (createErrorResponse w ident e fb) \<noteq> None"
  by (cases e) (simp_all add: createErrorResponse_def)

text \<open>Every response has exactly one of \<^verbatim>\<open>result\<close> and \<^verbatim>\<open>error\<close>.\<close>

lemma tools_call_result_xor_error:
  assumes "tools_call w s request hs = (Inr response, s')"
  shows "(result response = None) \<noteq> (error response = None)"
proof (cases "own_prop request ''params'' = None \<or> own_prop request ''params'' = Some JNull")
  case True
  with assms show ?thesis by (simp add: tools_call_no_params)
next
  case False
  then obtain params where "own_prop request ''params'' = Some params" "params \<noteq> JNull"
    by auto
  with assms show ?thesis
    using createErrorResponse_error_only
    by (auto simp: tools_call_params split: sum.splits option.splits prod.splits if_splits)
qed

lemma handleMCPRequest_result_xor_error:
  assumes "handleMCPRequest w s request hs = (Inr response, s')"
  shows "(result response = None) \<noteq> (error response = None)"
  using assms tools_call_result_xor_error [of w s request hs response s']
  by (auto simp: handleMCPRequest_def split: sum.splits if_splits)

lemma process_body_result_xor_error:
  assumes "process_body w s hs txt = (r, s')"
  shows "\<exists>response. http_body r = JsonBody response
           \<and> (result response = None) \<noteq> (error response = None)"
  using assms createErrorResponse_error_only handleMCPRequest_result_xor_error
  by (auto simp: process_body_def request_processing_error_def
           split: option.splits sum.splits prod.splits)

text \<open>A successful call of one of the seven tools returns two text blocks.\<close>

lemma registered_tool_content:
  assumes "map_of allTools key = Some h" and "call_handler w s h args = (Inr out, s')"
  shows "\<exists>a b. out = Content [TextBlock a, TextBlock b]"
proof -
  from assms(1) have "h = SearchPets \<or> h = GetPet \<or> h = SearchOrgs \<or> h = GetOrg
      \<or> h = ListAnimalTypes \<or> h = GetAnimalTypeDetails \<or> h = ListAnimalBreeds"
    by (auto simp: allTools_def split: if_splits)
  with assms(2) show ?thesis
    by (auto simp: searchPets_def getPet_def searchOrgs_def getOrg_def listAnimalTypes_def
          getAnimalTypeDetails_def listAnimalBreeds_def found_blocks_def detail_blocks_def
          Let_def
          split: sum.splits prod.splits)
qed

text \<open>
  Claim C7 does not hold of the code. The handler table is an object literal, so the
  lookup of the tool name \<^verbatim>\<open>constructor\<close> finds the function \<^verbatim>\<open>Object\<close> inherited from
  \<^verbatim>\<open>Object.prototype\<close>. Called with the arguments \<^verbatim>\<open>{"content": 5}\<close> it returns them,
  and since they have a property \<^verbatim>\<open>content\<close> they become the result of a successful
  response as they are: a result whose \<^verbatim>\<open>content\<close> is the number 5, not an array of
  text blocks.
\<close>

theorem inherited_constructor_result:
  "handleMCPRequest (example_world 1000 (token_reply 200 ''T1'' 3600) Rejected) initial_state
       (tools_call_request (JStr ''constructor'') (JObj [(''content'', JNum 5)]))
       example_headers =
     (Inr \<lparr>jsonrpc = ''2.0'', msg_id = Some (JNum 1),
           result = Some (ToolValue (JObj [(''content'', JNum 5)])), error = None\<rparr>,
      initial_state)"
  by (simp add: handleMCPRequest_def tools_call_def get_prop_def lookup_handler_def
        allTools_get_def allTools_def Object_prototype_members_def
        extractCredentialsFromHeaders_def tools_call_request_def example_headers_def
        empty_context_def initial_state_def)


end

